theory Spec2Isabelle
  imports Complex_Main
begin

section \<open>Conventions of the embedding\<close>

text \<open>
  The theory embeds the operation lifecycle of the library: the preparer
  (\<^verbatim>\<open>OperationEmitter.prepareOperation\<close>), \<^verbatim>\<open>createTransferOperation\<close>,
  \<^verbatim>\<open>inject\<close>, the \<^verbatim>\<open>Estimate\<close> class, the confirmation tracker of
  \<^verbatim>\<open>Operation\<close> and the source filter of the operation filter evaluator.

  \<^item> A JavaScript object is a record whose optional fields have an option type;
    \<^verbatim>\<open>undefined\<close> is \<open>None\<close>.
  \<^item> An asynchronous function returns the list of collaborator calls it has issued and
    either an error (a \<^verbatim>\<open>throw\<close> or a rejected promise) or its value.
  \<^item> The collaborators (RPC node, signer, injector) are a record of their answers.
  \<^item> Counters, levels and tick counts are integers; JavaScript computes them exactly
    below \<open>2 ^ 53\<close>. Fees and durations are binary64 numbers with their rounding.
\<close>

section \<open>JavaScript strings\<close>

definition toLowerCase_char :: "char \<Rightarrow> char" where
  "toLowerCase_char c =
     (case map_of (zip ''ABCDEFGHIJKLMNOPQRSTUVWXYZ'' ''abcdefghijklmnopqrstuvwxyz'') c of
        Some l \<Rightarrow> l
      | None \<Rightarrow> c)"

definition toLowerCase :: "string \<Rightarrow> string" where
  "toLowerCase s = map toLowerCase_char s"

definition startsWith :: "string \<Rightarrow> string \<Rightarrow> bool" where
  "startsWith s p = (take (length p) s = p)"

definition digit_char :: "nat \<Rightarrow> char" where
  "digit_char d = ''0123456789'' ! d"

function string_of_nat :: "nat \<Rightarrow> string" where
  "string_of_nat n =
     (if n < 10 then [digit_char n]
      else string_of_nat (n div 10) @ [digit_char (n mod 10)])"
  by pat_completeness auto
termination
  by (relation "measure (\<lambda>n. n)") auto

declare string_of_nat.simps [simp del]

text \<open>
  \<^verbatim>\<open>"" + n\<close> for a number: counters are integers, and \<^verbatim>\<open>NaN\<close> (what
  \<^verbatim>\<open>parseInt\<close> gives on a string without leading digits) is \<open>None\<close>.
\<close>

definition string_of_number :: "int option \<Rightarrow> string" where
  "string_of_number n =
     (case n of
        None \<Rightarrow> ''NaN''
      | Some i \<Rightarrow> if i < 0 then CHR ''-'' # string_of_nat (nat (- i)) else string_of_nat (nat i))"

definition digit_val :: "char \<Rightarrow> int option" where
  "digit_val c = map_of (zip ''0123456789'' [0, 1, 2, 3, 4, 5, 6, 7, 8, 9]) c"

definition isWhiteSpace :: "char \<Rightarrow> bool" where
  "isWhiteSpace c = (c \<in> set [CHR '' '', CHR 0x09, CHR 0x0A, CHR 0x0B, CHR 0x0C, CHR 0x0D])"

fun parse_digits :: "int option \<Rightarrow> string \<Rightarrow> int option" where
  "parse_digits acc [] = acc"
| "parse_digits acc (c # cs) =
     (case digit_val c of
        None \<Rightarrow> acc
      | Some d \<Rightarrow> parse_digits (Some ((case acc of None \<Rightarrow> 0 | Some a \<Rightarrow> a) * 10 + d)) cs)"

text \<open>
  \<^verbatim>\<open>parseInt(s, 10)\<close>: leading white space is skipped, a sign is read, then the longest
  run of decimal digits; no digit at all gives \<^verbatim>\<open>NaN\<close>.
\<close>

definition parseInt :: "string \<Rightarrow> int option" where
  "parseInt s =
     (case dropWhile isWhiteSpace s of
        [] \<Rightarrow> None
      | c # r \<Rightarrow>
          if c = CHR ''-'' then map_option uminus (parse_digits None r)
          else if c = CHR ''+'' then parse_digits None r
          else parse_digits None (c # r))"

text \<open>A field value that the caller may give as a number or as a string.\<close>

datatype jsval = Num int | Str string

text \<open>\<^verbatim>\<open>"" + v\<close>\<close>

definition to_string :: "jsval \<Rightarrow> string" where
  "to_string v = (case v of Num n \<Rightarrow> string_of_number (Some n) | Str s \<Rightarrow> s)"

section \<open>Errors, collaborator calls and results\<close>

datatype err_item = Undefined_item | Error_item string

datatype error =
    Rejected string
  | Unable_to_latest_block_header
  | Unable_to_fetch_latest_metadata
  | KT1_not_supported_as_source
  | RPC_Fail
  | Operation_Failed "err_item list"
  | Timeout_must_be_more_than_0
  | Interval_must_be_more_than_0
  | Confirmation_polling_timed_out
  | TypeError

datatype call =
    GetBlockHeader
  | GetBlockMetadata
  | GetContract string
  | GetManagerKey string
  | PublicKeyHash
  | PublicKey
  | PreapplyOperations
  | InjectOperation string
  | GetBlock

text \<open>
  An asynchronous computation is its list of collaborator calls, in the order they are
  issued, with the value it resolves to or the error it rejects with.
\<close>

type_synonym 'a io = "call list \<times> (error + 'a)"

definition ret :: "'a \<Rightarrow> 'a io" where
  "ret x = ([], Inr x)"

definition throw :: "error \<Rightarrow> 'a io" where
  "throw e = ([], Inl e)"

definition started :: "call \<Rightarrow> unit io" where
  "started c = ([c], Inr ())"

definition await :: "error + 'a \<Rightarrow> 'a io" where
  "await r = ([], r)"

definition call :: "call \<Rightarrow> error + 'a \<Rightarrow> 'a io" where
  "call c r = ([c], r)"

definition io_bind :: "'a io \<Rightarrow> ('a \<Rightarrow> 'b io) \<Rightarrow> 'b io" where
  "io_bind m f =
     (case m of
        (l, Inl e) \<Rightarrow> (l, Inl e)
      | (l, Inr x) \<Rightarrow> (case f x of (l', r) \<Rightarrow> (l @ l', r)))"


section \<open>Operation contents and the operation group\<close>

datatype op_kind =
    Endorsement | Seed_nonce_revelation | Double_endorsement_evidence
  | Double_baking_evidence | Activate_account | Proposals | Ballot
  | Reveal | Transaction | Origination | Delegation

text \<open>
  An operation content handed to the preparer (\<^verbatim>\<open>RPCOperation\<close>) and the content it
  builds from it: one JavaScript object type, every field but \<^verbatim>\<open>kind\<close> optional.
  \<^verbatim>\<open>parameters\<close> and \<^verbatim>\<open>script\<close> hold Michelson expressions, which the
  preparer copies without reading; they are kept as opaque strings.
\<close>

record operation =
  kind :: op_kind
  source :: "string option"
  fee :: "jsval option"
  gas_limit :: "jsval option"
  storage_limit :: "jsval option"
  counter :: "jsval option"
  amount :: "jsval option"
  balance :: "jsval option"
  destination :: "string option"
  delegate :: "string option"
  public_key :: "string option"
  manager_pubkey :: "string option"
  spendable :: "bool option"
  delegatable :: "bool option"
  parameters :: "string option"
  script :: "string option"
  pkh :: "string option"
  secret :: "string option"

definition empty_operation :: "op_kind \<Rightarrow> operation" where
  "empty_operation k =
     \<lparr>kind = k, source = None, fee = None, gas_limit = None, storage_limit = None,
      counter = None, amount = None, balance = None, destination = None, delegate = None,
      public_key = None, manager_pubkey = None, spendable = None, delegatable = None,
      parameters = None, script = None, pkh = None, secret = None\<rparr>"

record operation_object =
  branch :: string
  contents :: "operation list"
  protocol :: string
  signature :: "string option"

record prepared =
  opOb :: operation_object
  prepared_counter :: "int option"

section \<open>Constants\<close>

definition DEFAULT_GAS_LIMIT_TRANSFER :: int where "DEFAULT_GAS_LIMIT_TRANSFER = 10600"
definition DEFAULT_GAS_LIMIT_REVEAL :: int where "DEFAULT_GAS_LIMIT_REVEAL = 10600"
definition DEFAULT_FEE_TRANSFER :: int where "DEFAULT_FEE_TRANSFER = 10000"
definition DEFAULT_FEE_REVEAL :: int where "DEFAULT_FEE_REVEAL = 1420"
definition DEFAULT_STORAGE_LIMIT_TRANSFER :: int where "DEFAULT_STORAGE_LIMIT_TRANSFER = 300"
definition DEFAULT_STORAGE_LIMIT_REVEAL :: int where "DEFAULT_STORAGE_LIMIT_REVEAL = 300"

definition Protocols_Pt24m4xi :: string where
  "Protocols_Pt24m4xi = ''Pt24m4xiPbLDhVgVfABUjirbmda3yohdN82Sp9FeuAXJ4eV9otd''"
definition Protocols_PsBABY5H :: string where
  "Protocols_PsBABY5H = ''PsBABY5HQTSkA4297zNHfsZNKtxULfL18y95qb3m53QJiXGmrbU''"
definition Protocols_PsBabyM1 :: string where
  "Protocols_PsBabyM1 = ''PsBabyM1eUXZseaJdmXFApDSBqj8YBfwELoxZHHW77EMcAbbwAS''"

definition protocols_004 :: "string list" where
  "protocols_004 = [Protocols_Pt24m4xi]"
definition protocols_005 :: "string list" where
  "protocols_005 = [Protocols_PsBABY5H, Protocols_PsBabyM1]"

section \<open>The collaborators: RPC node, signer, injector\<close>

record block_header =
  header_hash :: string

record block_metadata =
  next_protocol :: string

record contract_response =
  contract_counter :: "string option"

text \<open>
  \<^verbatim>\<open>ManagerKeyResponse\<close>: a string, an object with an optional \<^verbatim>\<open>key\<close>, or
  nothing (\<^verbatim>\<open>null\<close>, \<^verbatim>\<open>undefined\<close>).
\<close>

datatype manager_key = Manager_none | Manager_string string | Manager_object "string option"

text \<open>A content of a preapply answer or of a block, with the node's metadata.\<close>

record operation_result =
  status :: string
  errors :: "string list option"
  originated_contracts :: "string list option"

record op_metadata =
  md_delegate :: "string option"
  md_operation_result :: "operation_result option"

record content =
  c_kind :: op_kind
  c_source :: "string option"
  c_pkh :: "string option"
  c_destination :: "string option"
  c_delegate :: "string option"
  c_metadata :: "op_metadata option"

record preapply_group =
  pg_contents :: "content list"

datatype preapply_response = Not_an_array | Results "preapply_group list"

text \<open>
  What the collaborators answer. Every call either rejects (\<open>Inl\<close>) or resolves; the
  answers do not change during one call of the library.
\<close>

record env =
  rpc_getBlockHeader :: "error + block_header option"
  rpc_getBlockMetadata :: "error + block_metadata option"
  rpc_getContract :: "string \<Rightarrow> error + contract_response"
  rpc_getManagerKey :: "string \<Rightarrow> error + manager_key"
  signer_publicKeyHash :: "error + string"
  signer_publicKey :: "error + string"
  context_proto :: "string option"
  rpc_preapplyOperations :: "operation_object list \<Rightarrow> error + preapply_response"
  injector_inject :: "string \<Rightarrow> error + string"

section \<open>Context\<close>

text \<open>
  \<^verbatim>\<open>Context.isAnyProtocolActive\<close>: the configured protocol hint if there is one
  (a non-empty string), else the \<^verbatim>\<open>next_protocol\<close> of the head's metadata.
\<close>

definition truthy_string :: "string option \<Rightarrow> bool" where
  "truthy_string s = (case s of None \<Rightarrow> False | Some t \<Rightarrow> t \<noteq> [])"

definition isAnyProtocolActive :: "env \<Rightarrow> string list \<Rightarrow> bool io" where
  "isAnyProtocolActive e protocol_list =
     (if truthy_string (context_proto e)
      then ret (the (context_proto e) \<in> set protocol_list)
      else io_bind (call GetBlockMetadata (rpc_getBlockMetadata e)) (\<lambda>metadata.
             case metadata of
               None \<Rightarrow> throw TypeError
             | Some m \<Rightarrow> ret (next_protocol m \<in> set protocol_list)))"

section \<open>Operation preparer\<close>

definition isSourceOp :: "operation \<Rightarrow> bool" where
  "isSourceOp op = (kind op \<in> set [Transaction, Origination, Delegation])"

definition isFeeOp :: "operation \<Rightarrow> bool" where
  "isFeeOp op = (kind op \<in> set [Reveal, Transaction, Origination, Delegation])"

datatype operation_arg = Single operation | Batch "operation list"

definition ops_of :: "operation_arg \<Rightarrow> operation list" where
  "ops_of a = (case a of Single op \<Rightarrow> [op] | Batch l \<Rightarrow> l)"

definition haveManager :: "manager_key \<Rightarrow> bool" where
  "haveManager manager =
     (case manager of
        Manager_object k \<Rightarrow> truthy_string k
      | Manager_string s \<Rightarrow> s \<noteq> []
      | Manager_none \<Rightarrow> False)"

definition reveal_operation :: "string \<Rightarrow> string \<Rightarrow> operation" where
  "reveal_operation pk publicKeyHash =
     (empty_operation Reveal)
       \<lparr>fee := Some (Num DEFAULT_FEE_REVEAL),
        public_key := Some pk,
        source := Some publicKeyHash,
        gas_limit := Some (Num DEFAULT_GAS_LIMIT_REVEAL),
        storage_limit := Some (Num DEFAULT_STORAGE_LIMIT_REVEAL)\<rparr>"

text \<open>
  The body of the \<^verbatim>\<open>map\<close> callback of \<^verbatim>\<open>constructOps\<close>, with the counter
  \<^verbatim>\<open>counters[publicKeyHash]\<close> passed in and returned.
\<close>

definition or_default :: "jsval option \<Rightarrow> jsval option" where
  "or_default v = (case v of None \<Rightarrow> Some (Str ''0'') | Some x \<Rightarrow> Some (Str (to_string x)))"

definition stringify :: "jsval option \<Rightarrow> jsval option" where
  "stringify v = (case v of None \<Rightarrow> None | Some x \<Rightarrow> Some (Str (to_string x)))"

definition constructOp ::
  "bool \<Rightarrow> string \<Rightarrow> int option \<Rightarrow> operation \<Rightarrow> error + (operation \<times> int option)" where
  "constructOp proto005 publicKeyHash c op =
     (let op1 = (if isSourceOp op \<and> source op = None
                 then op\<lparr>source := Some publicKeyHash\<rparr> else op);
          opCounter = map_option (\<lambda>n. n + 1) c;
          op2 = (if isFeeOp op
                 then op1\<lparr>fee := or_default (fee op),
                          gas_limit := or_default (gas_limit op),
                          storage_limit := or_default (storage_limit op),
                          counter := Some (Str (string_of_number opCounter))\<rparr>
                 else op1);
          c' = (if isFeeOp op then opCounter else c);
          op3 = (if kind op = Origination then op2\<lparr>balance := stringify (balance op2)\<rparr> else op2)
      in if kind op = Transaction \<and> proto005
            \<and> startsWith (toLowerCase (case source op3 of None \<Rightarrow> [] | Some s \<Rightarrow> s)) ''kt1''
         then Inl KT1_not_supported_as_source
         else
           let op4 = (if kind op = Transaction then op3\<lparr>amount := stringify (amount op3)\<rparr> else op3);
               op5 = (if proto005
                      then op4\<lparr>manager_pubkey := None, spendable := None, delegatable := None\<rparr>
                      else op4)
           in Inr (op5, c'))"

fun constructOps ::
  "bool \<Rightarrow> string \<Rightarrow> int option \<Rightarrow> operation list \<Rightarrow> error + operation list" where
  "constructOps proto005 publicKeyHash c [] = Inr []"
| "constructOps proto005 publicKeyHash c (op # cOps) =
     (case constructOp proto005 publicKeyHash c op of
        Inl e \<Rightarrow> Inl e
      | Inr (op', c') \<Rightarrow>
          (case constructOps proto005 publicKeyHash c' cOps of
             Inl e \<Rightarrow> Inl e
           | Inr rest \<Rightarrow> Inr (op' # rest)))"

text \<open>
  The loop that looks for the first source-bearing content: it fetches the counter of
  the source account, starts the fetch of its manager key, and stops.
\<close>

definition fetch_counter_and_manager ::
  "env \<Rightarrow> string \<Rightarrow> operation list \<Rightarrow> (bool \<times> string option \<times> (error + manager_key)) io" where
  "fetch_counter_and_manager e publicKeyHash ops =
     (if list_ex isSourceOp ops
      then io_bind (call (GetContract publicKeyHash) (rpc_getContract e publicKeyHash)) (\<lambda>c.
           io_bind (started (GetManagerKey publicKeyHash)) (\<lambda>_.
           ret (True, contract_counter c, rpc_getManagerKey e publicKeyHash)))
      else ret (False, None, Inr Manager_none))"

definition check_head ::
  "block_header option \<Rightarrow> block_metadata option \<Rightarrow> (block_header \<times> block_metadata) io" where
  "check_head header metadata =
     (case header of
        None \<Rightarrow> throw Unable_to_latest_block_header
      | Some head \<Rightarrow>
          (case metadata of
             None \<Rightarrow> throw Unable_to_fetch_latest_metadata
           | Some meta \<Rightarrow> ret (head, meta)))"

definition add_reveal ::
  "env \<Rightarrow> bool \<Rightarrow> manager_key \<Rightarrow> string \<Rightarrow> operation list \<Rightarrow> operation list io" where
  "add_reveal e requiresReveal manager publicKeyHash ops =
     (if requiresReveal \<and> \<not> haveManager manager
      then io_bind (call PublicKey (signer_publicKey e)) (\<lambda>pk.
             ret (reveal_operation pk publicKeyHash # ops))
      else ret ops)"

text \<open>
  \<^verbatim>\<open>prepareOperation\<close>. The header and metadata fetches are started first and awaited
  together with the manager key (\<^verbatim>\<open>Promise.all\<close>); a rejection of several of them is
  reported in the order of the array. The local table \<^verbatim>\<open>counters\<close> is empty when the
  baseline is stored, so \<^verbatim>\<open>counters[publicKeyHash]\<close> starts at the parsed baseline.
\<close>

text \<open>\<^verbatim>\<open>parseInt(headCounter || '0', 10)\<close>\<close>

definition parse_counter :: "string option \<Rightarrow> int option" where
  "parse_counter headCounter =
     parseInt (if truthy_string headCounter then the headCounter else ''0'')"

definition resolve_source :: "env \<Rightarrow> string option \<Rightarrow> string io" where
  "resolve_source e source_a =
     (if truthy_string source_a then ret (the source_a)
      else call PublicKeyHash (signer_publicKeyHash e))"

definition prepareOperation :: "env \<Rightarrow> operation_arg \<Rightarrow> string option \<Rightarrow> prepared io" where
  "prepareOperation e operation_a source_a =
     io_bind (started GetBlockHeader) (\<lambda>_.
     io_bind (started GetBlockMetadata) (\<lambda>_.
     io_bind (resolve_source e source_a) (\<lambda>publicKeyHash.
     io_bind (fetch_counter_and_manager e publicKeyHash (ops_of operation_a))
       (\<lambda>(requiresReveal, headCounter, managerPromise).
     io_bind (await (rpc_getBlockHeader e)) (\<lambda>header.
     io_bind (await (rpc_getBlockMetadata e)) (\<lambda>metadata.
     io_bind (await managerPromise) (\<lambda>manager.
     io_bind (check_head header metadata) (\<lambda>(head, meta).
     io_bind (add_reveal e requiresReveal manager publicKeyHash (ops_of operation_a)) (\<lambda>ops.
     io_bind (ret (parse_counter headCounter)) (\<lambda>c.
     io_bind (isAnyProtocolActive e protocols_005) (\<lambda>proto005.
     io_bind (await (constructOps proto005 publicKeyHash c ops)) (\<lambda>cs.
       ret \<lparr>opOb = \<lparr>branch = header_hash head, contents = cs,
                      protocol = next_protocol meta, signature = None\<rparr>,
            prepared_counter = c\<rparr>))))))))))))"

section \<open>Building a transfer content\<close>

text \<open>
  \<^verbatim>\<open>format\<close> converts between units with bignumber.js, whose decimal arithmetic is
  exact here (a multiplication by a power of ten and a division by one): a value is the
  rational it denotes, \<^verbatim>\<open>NaN\<close> is \<open>None\<close>. \<^verbatim>\<open>toString\<close> prints plain decimal
  notation, which is what bignumber.js prints for exponents between -7 and 20.
\<close>

datatype unit_format = Tz | Mtz | Mutez

definition getDecimal :: "unit_format \<Rightarrow> nat" where
  "getDecimal f = (case f of Tz \<Rightarrow> 6 | Mtz \<Rightarrow> 3 | Mutez \<Rightarrow> 0)"

definition format :: "unit_format \<Rightarrow> unit_format \<Rightarrow> rat option \<Rightarrow> rat option" where
  "format from to amount_a =
     (case amount_a of
        None \<Rightarrow> None
      | Some a \<Rightarrow> Some (a * 10 ^ getDecimal from / 10 ^ getDecimal to))"

fun frac_digits :: "nat \<Rightarrow> rat \<Rightarrow> string" where
  "frac_digits 0 r = []"
| "frac_digits (Suc n) r =
     (if r = 0 then []
      else let d = \<lfloor>r * 10\<rfloor> in digit_char (nat d) # frac_digits n (r * 10 - of_int d))"

definition BigNumber_toString :: "rat option \<Rightarrow> string" where
  "BigNumber_toString x =
     (case x of
        None \<Rightarrow> ''NaN''
      | Some v \<Rightarrow>
          let a = \<bar>v\<bar>; i = \<lfloor>a\<rfloor>;
              body = string_of_nat (nat i)
                     @ (if a = of_int i then [] else CHR ''.'' # frac_digits 30 (a - of_int i))
          in if v < 0 then CHR ''-'' # body else body)"

datatype parameter_arg = Parameter_string string | Parameter_object string

record transfer_params =
  tp_to :: string
  tp_amount :: "rat option"
  tp_parameter :: "parameter_arg option"
  tp_fee :: "int option"
  tp_gasLimit :: "int option"
  tp_storageLimit :: "int option"
  tp_mutez :: "bool option"
  tp_rawParam :: "bool option"

definition default_to :: "'a \<Rightarrow> 'a option \<Rightarrow> 'a" where
  "default_to d v = (case v of None \<Rightarrow> d | Some x \<Rightarrow> x)"

text \<open>
  \<^verbatim>\<open>createTransferOperation\<close>; \<open>sexp2mic\<close> is the external Michelson parser, applied
  to a parameter given as a non-empty string unless \<^verbatim>\<open>rawParam\<close> is set.
\<close>

definition createTransferOperation :: "(string \<Rightarrow> string) \<Rightarrow> transfer_params \<Rightarrow> operation" where
  "createTransferOperation sexp2mic p =
     (let operation_v =
        (empty_operation Transaction)
          \<lparr>fee := Some (Num (default_to DEFAULT_FEE_TRANSFER (tp_fee p))),
           gas_limit := Some (Num (default_to DEFAULT_GAS_LIMIT_TRANSFER (tp_gasLimit p))),
           storage_limit := Some (Num (default_to DEFAULT_STORAGE_LIMIT_TRANSFER (tp_storageLimit p))),
           amount := Some (Str (if default_to False (tp_mutez p)
                                then BigNumber_toString (tp_amount p)
                                else BigNumber_toString (format Tz Mutez (tp_amount p)))),
           destination := Some (tp_to p)\<rparr>
      in case tp_parameter p of
           None \<Rightarrow> operation_v
         | Some (Parameter_object x) \<Rightarrow> operation_v\<lparr>parameters := Some x\<rparr>
         | Some (Parameter_string x) \<Rightarrow>
             if x = [] then operation_v
             else operation_v\<lparr>parameters :=
                    Some (if default_to False (tp_rawParam p) then x else sexp2mic x)\<rparr>)"

section \<open>Inject\<close>

record forged_bytes =
  opbytes :: string
  fb_opOb :: operation_object
  fb_counter :: "int option"

record inject_result =
  ir_hash :: string
  ir_forgedBytes :: forged_bytes
  ir_opResponse :: "content list"

definition is_failed :: "content \<Rightarrow> bool" where
  "is_failed c =
     (case c_metadata c of
        None \<Rightarrow> False
      | Some m \<Rightarrow>
          (case md_operation_result m of
             None \<Rightarrow> False
           | Some r \<Rightarrow> status r = ''failed''))"

text \<open>
  The argument of \<^verbatim>\<open>errors.concat(content.metadata.operation_result.errors)\<close>: an
  array adds its elements, an absent field adds the one element \<^verbatim>\<open>undefined\<close>.
\<close>

definition errors_of :: "content \<Rightarrow> err_item list" where
  "errors_of c =
     (case c_metadata c of
        None \<Rightarrow> []
      | Some m \<Rightarrow>
          (case md_operation_result m of
             None \<Rightarrow> []
           | Some r \<Rightarrow>
               (case errors r of
                  None \<Rightarrow> [Undefined_item]
                | Some l \<Rightarrow> map Error_item l)))"

fun scan_contents ::
  "content list \<Rightarrow> content list \<times> err_item list \<Rightarrow> content list \<times> err_item list" where
  "scan_contents [] (opResponse, errs) = (opResponse, errs)"
| "scan_contents (c # cs) (opResponse, errs) =
     scan_contents cs
       (opResponse @ [c], if is_failed c then errs @ errors_of c else errs)"

fun scan_results ::
  "preapply_group list \<Rightarrow> content list \<times> err_item list \<Rightarrow> content list \<times> err_item list" where
  "scan_results [] acc = acc"
| "scan_results (g # gs) acc = scan_results gs (scan_contents (pg_contents g) acc)"

definition inject :: "env \<Rightarrow> forged_bytes \<Rightarrow> string \<Rightarrow> string \<Rightarrow> inject_result io" where
  "inject e forgedBytes prefixSig sbytes =
     (let fb = forgedBytes\<lparr>opbytes := sbytes,
                            fb_opOb := (fb_opOb forgedBytes)\<lparr>signature := Some prefixSig\<rparr>\<rparr>
      in io_bind (call PreapplyOperations (rpc_preapplyOperations e [fb_opOb fb])) (\<lambda>results.
           case results of
             Not_an_array \<Rightarrow> throw RPC_Fail
           | Results rs \<Rightarrow>
               (case scan_results rs ([], []) of
                  (opResponse, errs) \<Rightarrow>
                    if errs \<noteq> [] then throw (Operation_Failed errs)
                    else io_bind (call (InjectOperation (opbytes fb)) (injector_inject e (opbytes fb)))
                           (\<lambda>h. ret \<lparr>ir_hash = h, ir_forgedBytes = fb,
                                      ir_opResponse = opResponse\<rparr>))))"

text \<open>Of all collaborator calls, only the injection changes the network.\<close>

definition is_mutation :: "call \<Rightarrow> bool" where
  "is_mutation c = (case c of InjectOperation _ \<Rightarrow> True | _ \<Rightarrow> False)"

definition is_GetContract :: "call \<Rightarrow> bool" where
  "is_GetContract c = (case c of GetContract _ \<Rightarrow> True | _ \<Rightarrow> False)"

section \<open>JavaScript numbers\<close>

text \<open>
  A finite JavaScript number is an IEEE 754 binary64 value; it is modelled by the
  rational it denotes. Every arithmetic operation computes the exact result and rounds
  it to the nearest binary64 value, ties to the even significand: \<open>fl\<close>. The
  significand has 53 bits; below \<open>2 powi - 1022\<close> the spacing stays that of the
  subnormal numbers. The exponent is not bounded above: results of magnitude
  \<open>2 powi 1024\<close> or more, which JavaScript turns into \<^verbatim>\<open>Infinity\<close>, and
  \<^verbatim>\<open>NaN\<close> are outside this model.
\<close>

function bitlength :: "nat \<Rightarrow> nat" where
  "bitlength n = (if n = 0 then 0 else Suc (bitlength (n div 2)))"
  by pat_completeness auto
termination
  by (relation "measure (\<lambda>n. n)") auto

declare bitlength.simps [simp del]

text \<open>The exponent of a positive rational: the integer part of its binary logarithm.\<close>

definition ilog2 :: "rat \<Rightarrow> int" where
  "ilog2 x =
     (if 1 \<le> x then int (bitlength (nat \<lfloor>x\<rfloor>)) - 1
      else - int (bitlength (nat (\<lceil>1 / x\<rceil> - 1))))"

definition round_half_even :: "rat \<Rightarrow> int" where
  "round_half_even y =
     (let f = \<lfloor>y\<rfloor>; r = y - of_int f
      in if r < 1 / 2 then f
         else if 1 / 2 < r then f + 1
         else if even f then f else f + 1)"

definition fl :: "rat \<Rightarrow> rat" where
  "fl x =
     (if x = 0 then 0
      else let e = max (ilog2 \<bar>x\<bar>) (- 1022);
               u = 2 powi (e - 52)
           in of_int (round_half_even (x / u)) * u)"

definition fadd :: "rat \<Rightarrow> rat \<Rightarrow> rat" where
  "fadd a b = fl (a + b)"

definition fmul :: "rat \<Rightarrow> rat \<Rightarrow> rat" where
  "fmul a b = fl (a * b)"


definition Math_ceil :: "rat \<Rightarrow> rat" where
  "Math_ceil x = of_int \<lceil>x\<rceil>"

definition Math_max :: "rat \<Rightarrow> rat \<Rightarrow> rat" where
  "Math_max a b = max a b"

section \<open>Estimate\<close>

definition MINIMAL_FEE_MUTEZ :: rat where "MINIMAL_FEE_MUTEZ = 100"
definition MINIMAL_FEE_PER_BYTE_MUTEZ :: rat where "MINIMAL_FEE_PER_BYTE_MUTEZ = 1"
definition MINIMAL_FEE_PER_STORAGE_BYTE_MUTEZ :: rat where
  "MINIMAL_FEE_PER_STORAGE_BYTE_MUTEZ = 1000"

text \<open>The literal \<^verbatim>\<open>0.1\<close> is the binary64 value nearest to one tenth.\<close>

definition MINIMAL_FEE_PER_GAS_MUTEZ :: rat where
  "MINIMAL_FEE_PER_GAS_MUTEZ = fl (1 / 10)"
definition GAS_BUFFER :: rat where "GAS_BUFFER = 100"

text \<open>
  The fields of an \<^verbatim>\<open>Estimate\<close>: \<^verbatim>\<open>_gasLimit\<close>, \<^verbatim>\<open>_storageLimit\<close>,
  \<^verbatim>\<open>opSize\<close> and \<^verbatim>\<open>baseFeeMutez\<close>, as numbers.
\<close>

record Estimate =
  raw_gasLimit :: rat
  raw_storageLimit :: rat
  opSize :: rat
  baseFeeMutez :: rat

definition new_Estimate :: "rat \<Rightarrow> rat \<Rightarrow> rat \<Rightarrow> rat option \<Rightarrow> Estimate" where
  "new_Estimate g s b base =
     \<lparr>raw_gasLimit = g, raw_storageLimit = s, opSize = b,
      baseFeeMutez = (case base of None \<Rightarrow> MINIMAL_FEE_MUTEZ | Some f \<Rightarrow> f)\<rparr>"

definition roundUp :: "rat \<Rightarrow> rat" where
  "roundUp nanotez = Math_ceil nanotez"

definition storageLimit :: "Estimate \<Rightarrow> rat" where
  "storageLimit est =
     (let limit = Math_max (raw_storageLimit est) 0 in if limit > 0 then limit else 0)"

definition burnFeeMutez :: "Estimate \<Rightarrow> rat" where
  "burnFeeMutez est = roundUp (fmul (storageLimit est) MINIMAL_FEE_PER_STORAGE_BYTE_MUTEZ)"

definition gasLimit :: "Estimate \<Rightarrow> rat" where
  "gasLimit est = fadd (raw_gasLimit est) GAS_BUFFER"

definition operationFeeMutez :: "Estimate \<Rightarrow> rat" where
  "operationFeeMutez est =
     fadd (fmul (gasLimit est) MINIMAL_FEE_PER_GAS_MUTEZ)
          (fmul (opSize est) MINIMAL_FEE_PER_BYTE_MUTEZ)"

definition minimalFeeMutez :: "Estimate \<Rightarrow> rat" where
  "minimalFeeMutez est = roundUp (fadd MINIMAL_FEE_MUTEZ (operationFeeMutez est))"

definition suggestedFeeMutez :: "Estimate \<Rightarrow> rat" where
  "suggestedFeeMutez est =
     roundUp (fadd (operationFeeMutez est) (fmul MINIMAL_FEE_MUTEZ 2))"

definition usingBaseFeeMutez :: "Estimate \<Rightarrow> rat" where
  "usingBaseFeeMutez est =
     fadd (Math_max (baseFeeMutez est) MINIMAL_FEE_MUTEZ) (roundUp (operationFeeMutez est))"

definition totalCost :: "Estimate \<Rightarrow> rat" where
  "totalCost est = fadd (minimalFeeMutez est) (burnFeeMutez est)"

section \<open>Operation confirmation tracker\<close>

record operation_entry =
  oe_hash :: string

record block =
  header_level :: int
  operations :: "operation_entry list list"









text \<open>
  The \<^verbatim>\<open>map\<close> of \<^verbatim>\<open>confirmed$\<close>: the four operation lists of the head are read
  from index 3 down to 0, and any entry with the tracked hash records the head's level in
  \<^verbatim>\<open>_foundAt\<close>, which starts as \<^verbatim>\<open>Infinity\<close> (\<open>None\<close>). A list that is
  missing makes \<^verbatim>\<open>head.operations[i].forEach\<close> throw.
\<close>

definition scan_pass :: "string \<Rightarrow> int \<Rightarrow> operation_entry list \<Rightarrow> int option \<Rightarrow> int option" where
  "scan_pass h level ops foundAt = (if list_ex (\<lambda>op. oe_hash op = h) ops then Some level else foundAt)"

fun scan_passes ::
  "string \<Rightarrow> block \<Rightarrow> nat list \<Rightarrow> int option \<Rightarrow> error + int option" where
  "scan_passes h head [] foundAt = Inr foundAt"
| "scan_passes h head (i # is) foundAt =
     (if i < length (operations head)
      then scan_passes h head is (scan_pass h (header_level head) (operations head ! i) foundAt)
      else Inl TypeError)"

text \<open>\<^verbatim>\<open>head.header.level - this._foundAt >= c\<close>, false while nothing is found.\<close>

definition depth_reached :: "block \<Rightarrow> int option \<Rightarrow> int \<Rightarrow> bool" where
  "depth_reached head foundAt c =
     (case foundAt of None \<Rightarrow> False | Some f \<Rightarrow> header_level head - f \<ge> c)"

definition confirmed_map :: "string \<Rightarrow> block \<Rightarrow> error + int option" where
  "confirmed_map h head =
     (case scan_passes h head [3, 2, 1, 0] None of
        Inl er \<Rightarrow> Inl er
      | Inr foundAt \<Rightarrow> Inr (if depth_reached head foundAt 0 then foundAt else None))"




text \<open>The tracked hash occurs in one of the four operation lists of a block.\<close>

definition in_block :: "string \<Rightarrow> block \<Rightarrow> bool" where
  "in_block h b =
     list_ex (\<lambda>ops. list_ex (\<lambda>op. oe_hash op = h) ops) (take 4 (operations b))"





section \<open>Operation filter evaluator\<close>

record source_filter =
  f_source :: string

text \<open>
  \<^verbatim>\<open>sourceFilter\<close>: a strict comparison \<^verbatim>\<open>x.f === filter.source\<close> of a possibly
  absent field with a string holds exactly when the field is present and equal.
\<close>

definition sourceFilter :: "content \<Rightarrow> source_filter \<Rightarrow> bool" where
  "sourceFilter x flt =
     (case c_kind x of
        Endorsement \<Rightarrow>
          (case c_metadata x of
             None \<Rightarrow> False
           | Some m \<Rightarrow> md_delegate m = Some (f_source flt))
      | Activate_account \<Rightarrow>
          c_metadata x \<noteq> None \<and> c_pkh x = Some (f_source flt)
      | _ \<Rightarrow> c_source x \<noteq> None \<and> c_source x = Some (f_source flt))"

section \<open>Examples\<close>

text \<open>
  A node on protocol 004 whose account has counter 5 and a revealed manager key, the
  same node with the key not revealed, and the same node on protocol 005.
\<close>

definition example_env :: env where
  "example_env =
     \<lparr>rpc_getBlockHeader = Inr (Some \<lparr>header_hash = ''BLockHead''\<rparr>),
      rpc_getBlockMetadata = Inr (Some \<lparr>next_protocol = Protocols_Pt24m4xi\<rparr>),
      rpc_getContract = (\<lambda>_. Inr \<lparr>contract_counter = Some ''5''\<rparr>),
      rpc_getManagerKey = (\<lambda>_. Inr (Manager_string ''edpkSigner'')),
      signer_publicKeyHash = Inr ''tz1Signer'',
      signer_publicKey = Inr ''edpkSigner'',
      context_proto = None,
      rpc_preapplyOperations = (\<lambda>_. Inr (Results [])),
      injector_inject = (\<lambda>_. Inr ''ooOperationHash'')\<rparr>"

definition example_env_unrevealed :: env where
  "example_env_unrevealed =
     example_env\<lparr>rpc_getManagerKey := (\<lambda>_. Inr (Manager_object None))\<rparr>"

definition example_env_005 :: env where
  "example_env_005 =
     example_env\<lparr>rpc_getBlockMetadata := Inr (Some \<lparr>next_protocol = Protocols_PsBabyM1\<rparr>)\<rparr>"

definition example_transfer :: transfer_params where
  "example_transfer =
     \<lparr>tp_to = ''tz1Receiver'', tp_amount = Some (3 / 2), tp_parameter = None,
      tp_fee = None, tp_gasLimit = None, tp_storageLimit = None,
      tp_mutez = None, tp_rawParam = None\<rparr>"

definition failed_content :: "string list option \<Rightarrow> content" where
  "failed_content errs =
     \<lparr>c_kind = Transaction, c_source = Some ''tz1Signer'', c_pkh = None,
      c_destination = Some ''tz1Receiver'', c_delegate = None,
      c_metadata = Some \<lparr>md_delegate = None,
                         md_operation_result =
                           Some \<lparr>status = ''failed'', errors = errs,
                                 originated_contracts = None\<rparr>\<rparr>\<rparr>"

definition example_forged :: forged_bytes where
  "example_forged =
     \<lparr>opbytes = ''a1b2'',
      fb_opOb = \<lparr>branch = ''BLockHead'', contents = [], protocol = Protocols_Pt24m4xi,
                 signature = None\<rparr>,
      fb_counter = Some 5\<rparr>"

text \<open>
  A chain for the examples: the block at level \<open>l\<close> carries the operation
  \<^verbatim>\<open>ooTracked\<close> in its last operation list when \<open>l = 7\<close>; the \<open>k\<close>-th fetch of the
  head returns the block at level \<open>5 + k\<close>. In the stalled chain the head stays at
  level 7 from the third fetch on.
\<close>

definition example_block :: "int \<Rightarrow> block" where
  "example_block l =
     \<lparr>header_level = l,
      operations = [[], [], [], if l = 7 then [\<lparr>oe_hash = ''ooTracked''\<rparr>] else []]\<rparr>"



lemma snd_io_bind:
  "snd (io_bind m f) = (case snd m of Inl e \<Rightarrow> Inl e | Inr x \<Rightarrow> snd (f x))"
  by (cases m) (auto simp: io_bind_def split: sum.splits prod.splits)

lemma fst_io_bind:
  "fst (io_bind m f) = (case snd m of Inl e \<Rightarrow> fst m | Inr x \<Rightarrow> fst m @ fst (f x))"
  by (cases m) (auto simp: io_bind_def split: sum.splits prod.splits)

lemma io_simps [simp]:
  "snd (ret x) = Inr x" "fst (ret x) = []"
  "snd (throw er) = Inl er" "fst (throw er) = []"
  "snd (started c) = Inr ()" "fst (started c) = [c]"
  "snd (await r) = r" "fst (await r) = []"
  "snd (call c r) = r" "fst (call c r) = [c]"
  by (simp_all add: ret_def throw_def started_def await_def call_def)

lemma prepareOperation_InrD:
  assumes "snd (prepareOperation e a s) = Inr r"
  shows "\<exists>publicKeyHash head meta manager headCounter ops proto005.
      snd (resolve_source e s) = Inr publicKeyHash
    \<and> snd (fetch_counter_and_manager e publicKeyHash (ops_of a))
        = Inr (list_ex isSourceOp (ops_of a), headCounter, Inr manager)
    \<and> rpc_getBlockHeader e = Inr (Some head)
    \<and> rpc_getBlockMetadata e = Inr (Some meta)
    \<and> snd (add_reveal e (list_ex isSourceOp (ops_of a)) manager publicKeyHash (ops_of a)) = Inr ops
    \<and> snd (isAnyProtocolActive e protocols_005) = Inr proto005
    \<and> constructOps proto005 publicKeyHash (parse_counter headCounter) ops
        = Inr (contents (opOb r))
    \<and> prepared_counter r = parse_counter headCounter
    \<and> branch (opOb r) = header_hash head
    \<and> protocol (opOb r) = next_protocol meta"
  using assms
  unfolding prepareOperation_def
  apply (simp add: snd_io_bind split: sum.splits prod.splits)
  apply (auto simp: check_head_def fetch_counter_and_manager_def snd_io_bind split: option.splits if_splits sum.splits)
  done









lemma filter_fst_io_bind:
  "filter P (fst (io_bind m f))
     = (case snd m of Inl e \<Rightarrow> filter P (fst m)
        | Inr x \<Rightarrow> filter P (fst m) @ filter P (fst (f x)))"
  by (simp add: fst_io_bind split: sum.splits)

lemma resolve_source_calls [simp]:
  "filter is_GetContract (fst (resolve_source e s)) = []"
  "filter is_mutation (fst (resolve_source e s)) = []"
  by (simp_all add: resolve_source_def is_GetContract_def is_mutation_def)

lemma fetch_calls [simp]:
  "filter is_GetContract (fst (fetch_counter_and_manager e h ops))
     = (if list_ex isSourceOp ops then [GetContract h] else [])"
  "filter is_mutation (fst (fetch_counter_and_manager e h ops)) = []"
  by (simp_all add: fetch_counter_and_manager_def is_GetContract_def is_mutation_def
        filter_fst_io_bind split: sum.splits)

lemma check_head_calls [simp]:
  "fst (check_head hdr mt) = []"
  by (simp add: check_head_def split: option.splits)

lemma add_reveal_calls [simp]:
  "filter is_GetContract (fst (add_reveal e rr m h ops)) = []"
  "filter is_mutation (fst (add_reveal e rr m h ops)) = []"
  by (simp_all add: add_reveal_def is_GetContract_def is_mutation_def
        filter_fst_io_bind split: sum.splits)

lemma isAnyProtocolActive_calls [simp]:
  "filter is_GetContract (fst (isAnyProtocolActive e ps)) = []"
  "filter is_mutation (fst (isAnyProtocolActive e ps)) = []"
  by (simp_all add: isAnyProtocolActive_def is_GetContract_def is_mutation_def
        filter_fst_io_bind split: sum.splits option.splits)

lemma prepareOperation_no_mutation:
  "filter is_mutation (fst (prepareOperation e a s)) = []"
  unfolding prepareOperation_def
  by (simp add: filter_fst_io_bind is_mutation_def split: sum.splits prod.splits)









lemmas eval_defs =
  prepareOperation_def io_bind_def ret_def throw_def started_def await_def call_def
  resolve_source_def fetch_counter_and_manager_def check_head_def add_reveal_def
  isAnyProtocolActive_def parse_counter_def parseInt_def isWhiteSpace_def digit_val_def
  truthy_string_def ops_of_def isSourceOp_def isFeeOp_def haveManager_def
  reveal_operation_def empty_operation_def constructOp_def or_default_def stringify_def
  to_string_def string_of_number_def string_of_nat.simps digit_char_def
  startsWith_def toLowerCase_def toLowerCase_char_def
  protocols_005_def Protocols_PsBABY5H_def Protocols_PsBabyM1_def Protocols_Pt24m4xi_def
  DEFAULT_FEE_REVEAL_def DEFAULT_GAS_LIMIT_REVEAL_def DEFAULT_STORAGE_LIMIT_REVEAL_def
  DEFAULT_FEE_TRANSFER_def DEFAULT_GAS_LIMIT_TRANSFER_def DEFAULT_STORAGE_LIMIT_TRANSFER_def
  example_env_def example_env_unrevealed_def example_env_005_def Let_def



lemma parse_counter_None [simp]: "parse_counter None = Some 0"
  by (simp add: parse_counter_def truthy_string_def parseInt_def isWhiteSpace_def digit_val_def)


lemmas transfer_defs = createTransferOperation_def example_transfer_def default_to_def
  format_def getDecimal_def BigNumber_toString_def



lemma string_of_number_consts [simp]:
  "string_of_number (Some 1420) = ''1420''"
  "string_of_number (Some 10600) = ''10600''"
  "string_of_number (Some 300) = ''300''"
  "string_of_number (Some 10000) = ''10000''"
  by (simp_all add: string_of_number_def string_of_nat.simps digit_char_def)


lemma add_reveal_InrD:
  "snd (add_reveal e rr m h ops) = Inr ops' \<Longrightarrow>
     (if rr \<and> \<not> haveManager m
      then \<exists>pk. signer_publicKey e = Inr pk \<and> ops' = reveal_operation pk h # ops
      else ops' = ops)"
  by (auto simp: add_reveal_def snd_io_bind split: if_splits sum.splits)



lemma constructOp_Inl:
  "constructOp p h c op = Inl er \<Longrightarrow> er = KT1_not_supported_as_source"
  by (auto simp: constructOp_def Let_def split: if_splits)

lemma constructOps_Inl:
  "constructOps p h c ops = Inl er \<Longrightarrow> er = KT1_not_supported_as_source"
proof (induction ops arbitrary: c)
  case Nil
  then show ?case by simp
next
  case (Cons op ops)
  then show ?case
    by (auto split: sum.splits prod.splits dest: constructOp_Inl)
qed

lemma constructOp_kt1:
  assumes "kind op = Transaction"
    and "startsWith (toLowerCase (case source op of None \<Rightarrow> h | Some x \<Rightarrow> x)) ''kt1''"
  shows "constructOp True h c op = Inl KT1_not_supported_as_source"
  using assms
  by (cases "source op") (simp_all add: constructOp_def isSourceOp_def isFeeOp_def Let_def)

lemma constructOps_kt1:
  assumes "op \<in> set ops" and "kind op = Transaction"
    and "startsWith (toLowerCase (case source op of None \<Rightarrow> h | Some x \<Rightarrow> x)) ''kt1''"
  shows "constructOps True h c ops = Inl KT1_not_supported_as_source"
  using assms(1)
proof (induction ops arbitrary: c)
  case Nil
  then show ?case by simp
next
  case (Cons x xs)
  show ?case
  proof (cases "constructOp True h c x")
    case (Inl er)
    with constructOp_Inl [OF Inl] show ?thesis by simp
  next
    case (Inr res)
    obtain x' c' where res: "res = (x', c')" by (cases res)
    from Inr constructOp_kt1 [OF assms(2,3), of c] have "x \<noteq> op" by auto
    with Cons.prems have "op \<in> set xs" by simp
    from Cons.IH [OF this, of c'] Inr res show ?thesis by simp
  qed
qed

lemma prepareOperation_kt1_Inl:
  assumes active: "snd (isAnyProtocolActive e protocols_005) = Inr True"
    and src: "snd (resolve_source e s) = Inr h"
    and op: "op \<in> set (ops_of a)" "kind op = Transaction"
    and kt1: "startsWith (toLowerCase (case source op of None \<Rightarrow> h | Some x \<Rightarrow> x)) ''kt1''"
  shows "\<exists>er. snd (prepareOperation e a s) = Inl er"
proof (cases "snd (prepareOperation e a s)")
  case (Inl er)
  then show ?thesis by blast
next
  case (Inr r)
  from prepareOperation_InrD [OF Inr]
  obtain h' manager headCounter ops proto005 where
    src': "snd (resolve_source e s) = Inr h'"
    and rev: "snd (add_reveal e (list_ex isSourceOp (ops_of a)) manager h' (ops_of a)) = Inr ops"
    and act: "snd (isAnyProtocolActive e protocols_005) = Inr proto005"
    and built: "constructOps proto005 h' (parse_counter headCounter) ops = Inr (contents (opOb r))"
    by blast
  from src src' have h: "h' = h" by simp
  from act active have p: "proto005 = True" by simp
  from add_reveal_InrD [OF rev] op(1) have "op \<in> set ops"
    by (auto split: if_splits)
  from constructOps_kt1 [OF this op(2) kt1, of "parse_counter headCounter"] built h p
  show ?thesis by simp
qed

lemma prepareOperation_kt1_error:
  assumes active: "snd (isAnyProtocolActive e protocols_005) = Inr True"
    and src: "snd (resolve_source e s) = Inr h"
    and op: "op \<in> set (ops_of a)" "kind op = Transaction"
    and kt1: "startsWith (toLowerCase (case source op of None \<Rightarrow> h | Some x \<Rightarrow> x)) ''kt1''"
    and ok: "rpc_getBlockHeader e = Inr (Some hdr)" "rpc_getBlockMetadata e = Inr (Some mt)"
      "rpc_getContract e h = Inr cr" "rpc_getManagerKey e h = Inr mk"
      "signer_publicKey e = Inr pk"
  shows "snd (prepareOperation e a s) = Inl KT1_not_supported_as_source"
proof -
  have sb: "list_ex isSourceOp (ops_of a)"
    using op by (auto simp: list_ex_iff isSourceOp_def)
  have fetched: "snd (fetch_counter_and_manager e h (ops_of a))
                   = Inr (True, contract_counter cr, Inr mk)"
    using sb ok by (simp add: fetch_counter_and_manager_def snd_io_bind)
  obtain ops where rev: "snd (add_reveal e True mk h (ops_of a)) = Inr ops"
    and mem: "op \<in> set ops"
    using ok(5) op(1) by (cases "haveManager mk") (simp_all add: add_reveal_def snd_io_bind)
  from constructOps_kt1 [OF mem op(2) kt1]
  have "constructOps True h (parse_counter (contract_counter cr)) ops
          = Inl KT1_not_supported_as_source" .
  then show ?thesis
    unfolding prepareOperation_def
    using src fetched ok(1,2) rev active
    by (simp add: snd_io_bind check_head_def)
qed

text \<open>
  C7. With a protocol of generation 005 active, a call of \<^verbatim>\<open>prepareOperation\<close> whose
  contents hold a transaction with a resolved source that starts with \<^verbatim>\<open>kt1\<close> (in any
  letter case) fails; it has made no injection; and when the collaborators have answered,
  the error is the one that names the unsupported KT1 source.
\<close>

theorem C7_kt1_transaction_source_rejected:
  assumes "snd (isAnyProtocolActive e protocols_005) = Inr True"
    and "snd (resolve_source e s) = Inr h"
    and "op \<in> set (ops_of a)" and "kind op = Transaction"
    and "startsWith (toLowerCase (case source op of None \<Rightarrow> h | Some x \<Rightarrow> x)) ''kt1''"
  shows "(\<exists>er. snd (prepareOperation e a s) = Inl er)
       \<and> filter is_mutation (fst (prepareOperation e a s)) = []
       \<and> (rpc_getBlockHeader e = Inr (Some hdr) \<and> rpc_getBlockMetadata e = Inr (Some mt)
            \<and> rpc_getContract e h = Inr cr \<and> rpc_getManagerKey e h = Inr mk
            \<and> signer_publicKey e = Inr pk
          \<longrightarrow> snd (prepareOperation e a s) = Inl KT1_not_supported_as_source)"
  using prepareOperation_kt1_Inl [OF assms] prepareOperation_no_mutation [of e a s]
    prepareOperation_kt1_error [OF assms]
  by blast

theorem C7_kt1_transaction_source_rejected_witness:
  "snd (isAnyProtocolActive example_env_005 protocols_005) = Inr True
   \<and> snd (resolve_source example_env_005 (Some ''KT1Contract'')) = Inr ''KT1Contract''
   \<and> createTransferOperation id example_transfer
        \<in> set (ops_of (Single (createTransferOperation id example_transfer)))
   \<and> kind (createTransferOperation id example_transfer) = Transaction
   \<and> startsWith (toLowerCase ''KT1Contract'') ''kt1''
   \<and> snd (prepareOperation example_env_005
            (Single (createTransferOperation id example_transfer)) (Some ''KT1Contract''))
       = Inl KT1_not_supported_as_source
   \<and> filter is_mutation
        (fst (prepareOperation example_env_005
               (Single (createTransferOperation id example_transfer)) (Some ''KT1Contract'')))
       = []"
proof -
  let ?op = "createTransferOperation id example_transfer"
  have a1: "snd (isAnyProtocolActive example_env_005 protocols_005) = Inr True"
    by (simp add: eval_defs)
  have a2: "snd (resolve_source example_env_005 (Some ''KT1Contract'')) = Inr ''KT1Contract''"
    by (simp add: eval_defs)
  have a3: "?op \<in> set (ops_of (Single ?op))"
    by (simp add: ops_of_def)
  have a4: "kind ?op = Transaction"
    by (simp add: transfer_defs empty_operation_def)
  have a5: "startsWith (toLowerCase ''KT1Contract'') ''kt1''"
    by (simp add: startsWith_def toLowerCase_def toLowerCase_char_def)
  have a5': "startsWith (toLowerCase (case source ?op of None \<Rightarrow> ''KT1Contract'' | Some x \<Rightarrow> x)) ''kt1''"
    using a5 by (simp add: transfer_defs empty_operation_def)
  have ok: "rpc_getBlockHeader example_env_005 = Inr (Some \<lparr>header_hash = ''BLockHead''\<rparr>)"
    "rpc_getBlockMetadata example_env_005 = Inr (Some \<lparr>next_protocol = Protocols_PsBabyM1\<rparr>)"
    "rpc_getContract example_env_005 ''KT1Contract'' = Inr \<lparr>contract_counter = Some ''5''\<rparr>"
    "rpc_getManagerKey example_env_005 ''KT1Contract'' = Inr (Manager_string ''edpkSigner'')"
    "signer_publicKey example_env_005 = Inr ''edpkSigner''"
    by (simp_all add: example_env_005_def example_env_def)
  from C7_kt1_transaction_source_rejected [OF a1 a2 a3 a4 a5'] ok a1 a2 a3 a4 a5
  show ?thesis by simp
qed






lemma scan_contents_eq:
  "scan_contents cs (resp, errs)
     = (resp @ cs, errs @ concat (map errors_of (filter is_failed cs)))"
  by (induction cs arbitrary: resp errs) simp_all

lemma scan_results_eq:
  "scan_results rs (resp, errs)
     = (resp @ concat (map pg_contents rs),
        errs @ concat (map errors_of (filter is_failed (concat (map pg_contents rs)))))"
  by (induction rs arbitrary: resp errs) (simp_all add: scan_contents_eq)

text \<open>
  C3, as stated, has every failed content abort the injection. A failed content whose
  \<^verbatim>\<open>errors\<close> array is empty leaves the aggregate empty, and the injector is called.
\<close>

theorem C3_failed_empty_errors_counterexample:
  "is_failed (failed_content (Some []))
   \<and> inject (example_env\<lparr>rpc_preapplyOperations :=
               (\<lambda>_. Inr (Results [\<lparr>pg_contents = [failed_content (Some [])]\<rparr>]))\<rparr>)
        example_forged ''edsigSignature'' ''a1b2c3''
     = ([PreapplyOperations, InjectOperation ''a1b2c3''],
        Inr \<lparr>ir_hash = ''ooOperationHash'',
              ir_forgedBytes =
                example_forged\<lparr>opbytes := ''a1b2c3'',
                  fb_opOb := (fb_opOb example_forged)\<lparr>signature := Some ''edsigSignature''\<rparr>\<rparr>,
              ir_opResponse = [failed_content (Some [])]\<rparr>)"
  by (simp add: inject_def io_bind_def call_def ret_def throw_def example_env_def
        example_forged_def failed_content_def is_failed_def errors_of_def Let_def)

text \<open>
  C3, amended. When preapply answers with an array of result groups, the \<^verbatim>\<open>errors\<close> of
  all contents with status \<^verbatim>\<open>failed\<close> are concatenated in order. If this aggregate is
  not empty, \<^verbatim>\<open>inject\<close> fails with it and the only collaborator call made is the
  preapply: the injector is not invoked. If it is empty, the injector is called with the
  signed bytes and \<^verbatim>\<open>inject\<close> returns its hash (or its rejection).
\<close>

theorem C3_inject_aborts_on_errors:
  assumes "rpc_preapplyOperations e [(fb_opOb fb)\<lparr>signature := Some sig\<rparr>] = Inr (Results rs)"
  shows "(concat (map errors_of (filter is_failed (concat (map pg_contents rs)))) \<noteq> []
          \<longrightarrow> inject e fb sig sbytes
                = ([PreapplyOperations],
                   Inl (Operation_Failed
                     (concat (map errors_of (filter is_failed (concat (map pg_contents rs))))))))
       \<and> (concat (map errors_of (filter is_failed (concat (map pg_contents rs)))) = []
          \<longrightarrow> fst (inject e fb sig sbytes) = [PreapplyOperations, InjectOperation sbytes]
              \<and> snd (inject e fb sig sbytes)
                  = map_sum id
                      (\<lambda>h. \<lparr>ir_hash = h,
                             ir_forgedBytes =
                               fb\<lparr>opbytes := sbytes,
                                  fb_opOb := (fb_opOb fb)\<lparr>signature := Some sig\<rparr>\<rparr>,
                             ir_opResponse = concat (map pg_contents rs)\<rparr>)
                      (injector_inject e sbytes))"
  using assms
  by (cases "injector_inject e sbytes")
     (simp_all add: inject_def io_bind_def call_def ret_def throw_def Let_def scan_results_eq)

theorem C3_inject_aborts_on_errors_witness:
  "rpc_preapplyOperations
      (example_env\<lparr>rpc_preapplyOperations :=
         (\<lambda>_. Inr (Results [\<lparr>pg_contents = [failed_content (Some [''balance_too_low''])]\<rparr>,
                              \<lparr>pg_contents = [failed_content None]\<rparr>]))\<rparr>)
      [(fb_opOb example_forged)\<lparr>signature := Some ''edsigSignature''\<rparr>]
     = Inr (Results [\<lparr>pg_contents = [failed_content (Some [''balance_too_low''])]\<rparr>,
                     \<lparr>pg_contents = [failed_content None]\<rparr>])
   \<and> inject (example_env\<lparr>rpc_preapplyOperations :=
         (\<lambda>_. Inr (Results [\<lparr>pg_contents = [failed_content (Some [''balance_too_low''])]\<rparr>,
                              \<lparr>pg_contents = [failed_content None]\<rparr>]))\<rparr>)
        example_forged ''edsigSignature'' ''a1b2c3''
     = ([PreapplyOperations],
        Inl (Operation_Failed [Error_item ''balance_too_low'', Undefined_item]))
   \<and> rpc_preapplyOperations example_env
        [(fb_opOb example_forged)\<lparr>signature := Some ''edsigSignature''\<rparr>]
     = Inr (Results [])
   \<and> fst (inject example_env example_forged ''edsigSignature'' ''a1b2c3'')
     = [PreapplyOperations, InjectOperation ''a1b2c3'']
   \<and> snd (inject example_env example_forged ''edsigSignature'' ''a1b2c3'')
     = Inr \<lparr>ir_hash = ''ooOperationHash'',
             ir_forgedBytes =
               example_forged\<lparr>opbytes := ''a1b2c3'',
                 fb_opOb := (fb_opOb example_forged)\<lparr>signature := Some ''edsigSignature''\<rparr>\<rparr>,
             ir_opResponse = []\<rparr>"
proof -
  let ?rs = "[\<lparr>pg_contents = [failed_content (Some [''balance_too_low''])]\<rparr>,
              \<lparr>pg_contents = [failed_content None]\<rparr>]"
  let ?e = "example_env\<lparr>rpc_preapplyOperations := (\<lambda>_. Inr (Results ?rs))\<rparr>"
  have pre: "rpc_preapplyOperations ?e
               [(fb_opOb example_forged)\<lparr>signature := Some ''edsigSignature''\<rparr>]
             = Inr (Results ?rs)"
    by simp
  have errs: "concat (map errors_of (filter is_failed (concat (map pg_contents ?rs))))
               = [Error_item ''balance_too_low'', Undefined_item]"
    by (simp add: failed_content_def is_failed_def errors_of_def)
  have ne: "concat (map errors_of (filter is_failed (concat (map pg_contents ?rs)))) \<noteq> []"
    by (simp only: errs) simp
  from C3_inject_aborts_on_errors [OF pre, of "''a1b2c3''"] ne
  have "inject ?e example_forged ''edsigSignature'' ''a1b2c3''
          = ([PreapplyOperations],
             Inl (Operation_Failed
               (concat (map errors_of (filter is_failed (concat (map pg_contents ?rs)))))))"
    by blast
  then have "inject ?e example_forged ''edsigSignature'' ''a1b2c3''
          = ([PreapplyOperations],
             Inl (Operation_Failed [Error_item ''balance_too_low'', Undefined_item]))"
    by (simp only: errs)
  moreover have pre0: "rpc_preapplyOperations example_env
        [(fb_opOb example_forged)\<lparr>signature := Some ''edsigSignature''\<rparr>]
      = Inr (Results [])"
    by (simp add: example_env_def)
  moreover from C3_inject_aborts_on_errors [OF pre0, of "''a1b2c3''"]
  have "fst (inject example_env example_forged ''edsigSignature'' ''a1b2c3'')
          = [PreapplyOperations, InjectOperation ''a1b2c3'']"
    and "snd (inject example_env example_forged ''edsigSignature'' ''a1b2c3'')
          = Inr \<lparr>ir_hash = ''ooOperationHash'',
             ir_forgedBytes =
               example_forged\<lparr>opbytes := ''a1b2c3'',
                 fb_opOb := (fb_opOb example_forged)\<lparr>signature := Some ''edsigSignature''\<rparr>\<rparr>,
             ir_opResponse = []\<rparr>"
    by (simp_all add: example_env_def)
  ultimately show ?thesis using pre by blast
qed

text \<open>
  C9, as stated: an \<^verbatim>\<open>activate_account\<close> content matches a source filter exactly
  when its \<^verbatim>\<open>pkh\<close> equals the filter's source. The code also asks for
  \<^verbatim>\<open>'metadata' in x\<close>: a content that carries the right \<^verbatim>\<open>pkh\<close> but no
  metadata does not match.
\<close>

theorem C9_activate_account_counterexample:
  "c_pkh \<lparr>c_kind = Activate_account, c_source = None, c_pkh = Some ''tz1abc'',
          c_destination = None, c_delegate = None, c_metadata = None\<rparr>
     = Some (f_source \<lparr>f_source = ''tz1abc''\<rparr>)
   \<and> \<not> sourceFilter
        \<lparr>c_kind = Activate_account, c_source = None, c_pkh = Some ''tz1abc'',
          c_destination = None, c_delegate = None, c_metadata = None\<rparr>
        \<lparr>f_source = ''tz1abc''\<rparr>"
  by (simp add: sourceFilter_def)

text \<open>
  C9, amended: an \<^verbatim>\<open>activate_account\<close> content matches a source filter exactly when
  it carries a \<^verbatim>\<open>metadata\<close> field and its \<^verbatim>\<open>pkh\<close> equals the filter's source;
  an \<^verbatim>\<open>endorsement\<close> content matches exactly when it carries metadata whose
  \<^verbatim>\<open>delegate\<close> equals the filter's source.
\<close>

theorem C9_sourceFilter_by_kind:
  "(c_kind x = Activate_account \<longrightarrow>
      sourceFilter x flt = (c_metadata x \<noteq> None \<and> c_pkh x = Some (f_source flt)))
   \<and> (c_kind x = Endorsement \<longrightarrow>
      sourceFilter x flt = (\<exists>m. c_metadata x = Some m \<and> md_delegate m = Some (f_source flt)))"
  by (auto simp: sourceFilter_def split: option.splits)

theorem C9_sourceFilter_by_kind_witness:
  "sourceFilter
     \<lparr>c_kind = Activate_account, c_source = None, c_pkh = Some ''tz1abc'',
      c_destination = None, c_delegate = None,
      c_metadata = Some \<lparr>md_delegate = None, md_operation_result = None\<rparr>\<rparr>
     \<lparr>f_source = ''tz1abc''\<rparr>
   \<and> sourceFilter
     \<lparr>c_kind = Endorsement, c_source = None, c_pkh = None,
      c_destination = None, c_delegate = None,
      c_metadata = Some \<lparr>md_delegate = Some ''tz1abc'', md_operation_result = None\<rparr>\<rparr>
     \<lparr>f_source = ''tz1abc''\<rparr>"
  using C9_sourceFilter_by_kind
    [of "\<lparr>c_kind = Activate_account, c_source = None, c_pkh = Some ''tz1abc'',
      c_destination = None, c_delegate = None,
      c_metadata = Some \<lparr>md_delegate = None, md_operation_result = None\<rparr>\<rparr>"
      "\<lparr>f_source = ''tz1abc''\<rparr>"]
    C9_sourceFilter_by_kind
    [of "\<lparr>c_kind = Endorsement, c_source = None, c_pkh = None,
      c_destination = None, c_delegate = None,
      c_metadata = Some \<lparr>md_delegate = Some ''tz1abc'', md_operation_result = None\<rparr>\<rparr>"
      "\<lparr>f_source = ''tz1abc''\<rparr>"]
  by simp

lemma bitlength_pos: "0 < n \<Longrightarrow> 0 < bitlength n"
  by (subst bitlength.simps) simp

lemma bitlength_bounds:
  "0 < n \<Longrightarrow> 2 ^ (bitlength n - 1) \<le> n \<and> n < 2 ^ bitlength n"
proof (induction n rule: bitlength.induct)
  case (1 n)
  show ?case
  proof (cases "n div 2 = 0")
    case True
    with "1.prems" have "n = 1" by presburger
    then show ?thesis
      by (simp add: bitlength.simps)
  next
    case False
    then have pos: "0 < n div 2" by simp
    from "1.IH" [OF _ pos] "1.prems"
    have IH: "2 ^ (bitlength (n div 2) - 1) \<le> n div 2" "n div 2 < 2 ^ bitlength (n div 2)"
      by simp_all
    have bl: "bitlength n = Suc (bitlength (n div 2))"
      using "1.prems" by (subst bitlength.simps) simp
    from bitlength_pos [OF pos] obtain j where j: "bitlength (n div 2) = Suc j"
      by (cases "bitlength (n div 2)") simp_all
    from IH j have "2 * 2 ^ j \<le> n" "n < 2 * 2 ^ Suc j"
      by simp_all
    then show ?thesis
      by (simp add: bl j)
  qed
qed

lemma ilog2_bounds:
  assumes "0 < x"
  shows "2 powi (ilog2 x) \<le> x \<and> x < 2 powi (ilog2 x + 1)"
proof (cases "1 \<le> x")
  case True
  define n where "n = nat \<lfloor>x\<rfloor>"
  from True have n1: "0 < n" by (simp add: n_def)
  have "rat_of_nat n = rat_of_int \<lfloor>x\<rfloor>"
    unfolding n_def using True assms by (subst of_nat_nat) simp_all
  then have fl: "rat_of_nat n \<le> x" "x < rat_of_nat n + 1"
    by linarith+
  from bitlength_bounds [OF n1] have b: "2 ^ (bitlength n - 1) \<le> n" "n + 1 \<le> 2 ^ bitlength n"
    by simp_all
  from bitlength_pos [OF n1] obtain j where j: "bitlength n = Suc j"
    by (cases "bitlength n") simp_all
  have e: "ilog2 x = int j"
    using True by (simp add: ilog2_def n_def [symmetric] j)
  from b j have "rat_of_nat (2 ^ j) \<le> rat_of_nat n" "rat_of_nat (n + 1) \<le> rat_of_nat (2 ^ Suc j)"
    by (simp_all only: of_nat_le_iff) simp_all
  then have "2 ^ j \<le> rat_of_nat n" "rat_of_nat n + 1 \<le> 2 ^ Suc j"
    by simp_all
  with fl have "2 ^ j \<le> x" "x < 2 ^ Suc j"
    by linarith+
  then show ?thesis
    by (simp add: e power_int_add)
next
  case False
  with assms have x1: "x < 1" by simp
  define m where "m = nat (\<lceil>1 / x\<rceil> - 1)"
  have y1: "1 < 1 / x" using assms x1 by (simp add: field_simps)
  then have c2: "2 \<le> \<lceil>1 / x\<rceil>" by linarith
  then have m1: "0 < m" by (simp add: m_def)
  have "rat_of_nat m = rat_of_int (\<lceil>1 / x\<rceil> - 1)"
    unfolding m_def using c2 assms by (subst of_nat_nat) simp_all
  then have mc: "rat_of_nat m = of_int \<lceil>1 / x\<rceil> - 1"
    by simp
  have cl: "rat_of_nat m < 1 / x" "1 / x \<le> rat_of_nat m + 1"
    unfolding mc by linarith+
  from bitlength_bounds [OF m1] have b: "2 ^ (bitlength m - 1) \<le> m" "m + 1 \<le> 2 ^ bitlength m"
    by simp_all
  from bitlength_pos [OF m1] obtain j where j: "bitlength m = Suc j"
    by (cases "bitlength m") simp_all
  have e: "ilog2 x = - int (Suc j)"
    using False by (simp add: ilog2_def m_def [symmetric] j)
  from b j have "rat_of_nat (2 ^ j) \<le> rat_of_nat m" "rat_of_nat (m + 1) \<le> rat_of_nat (2 ^ Suc j)"
    by (simp_all only: of_nat_le_iff) simp_all
  then have "2 ^ j \<le> rat_of_nat m" "rat_of_nat m + 1 \<le> 2 ^ Suc j"
    by simp_all
  with cl have up: "1 / x \<le> 2 ^ Suc j" and lo: "2 ^ j < 1 / x"
    by linarith+
  from up assms have "1 / 2 ^ Suc j \<le> x"
    by (simp add: field_simps)
  moreover from lo assms have "x < 1 / 2 ^ j"
    by (simp add: field_simps)
  moreover have "(2::rat) powi (- int (Suc j)) = 1 / 2 ^ Suc j"
    by (simp only: power_int_minus_divide power_int_of_nat)
  moreover have "(2::rat) powi (- int (Suc j) + 1) = 1 / 2 ^ j"
  proof -
    have "- int (Suc j) + 1 = - int j" by simp
    then show ?thesis
      by (simp only: power_int_minus_divide power_int_of_nat)
  qed
  ultimately show ?thesis
    by (simp only: e)
qed

lemma ilog2_unique:
  assumes "0 < x" and "2 powi e \<le> x" and "x < 2 powi (e + 1)"
  shows "ilog2 x = e"
proof -
  from ilog2_bounds [OF assms(1)]
  have b: "2 powi (ilog2 x) \<le> x" "x < 2 powi (ilog2 x + 1)" by simp_all
  have "ilog2 x < e + 1"
  proof (rule ccontr)
    assume "\<not> ilog2 x < e + 1"
    then have "(2::rat) powi (e + 1) \<le> 2 powi (ilog2 x)"
      by (intro power_int_increasing) simp_all
    with b(1) assms(3) show False by linarith
  qed
  moreover have "e < ilog2 x + 1"
  proof (rule ccontr)
    assume "\<not> e < ilog2 x + 1"
    then have "(2::rat) powi (ilog2 x + 1) \<le> 2 powi e"
      by (intro power_int_increasing) simp_all
    with b(2) assms(2) show False by linarith
  qed
  ultimately show ?thesis by simp
qed

lemma round_half_even_near:
  assumes "\<bar>y - of_int m\<bar> < 1 / 2"
  shows "round_half_even y = m"
proof (cases "of_int m \<le> y")
  case True
  with assms have "\<lfloor>y\<rfloor> = m" by (intro floor_unique) linarith+
  with assms True show ?thesis
    by (simp add: round_half_even_def Let_def)
next
  case False
  have "rat_of_int (m - 1) = rat_of_int m - 1" by simp
  with False assms have "rat_of_int (m - 1) \<le> y" "y < rat_of_int (m - 1) + 1"
    by linarith+
  then have f: "\<lfloor>y\<rfloor> = m - 1" by (intro floor_unique)
  have "1 / 2 < y - rat_of_int (m - 1)"
    using assms False by simp
  with f show ?thesis
    by (simp add: round_half_even_def Let_def)
qed

lemma round_half_even_of_int [simp]: "round_half_even (of_int m) = m"
  by (rule round_half_even_near) simp

lemma round_half_even_tie:
  "round_half_even (of_int m + 1 / 2) = (if even m then m else m + 1)"
proof -
  have "\<lfloor>rat_of_int m + 1 / 2\<rfloor> = m" by (intro floor_unique) simp_all
  then show ?thesis
    by (simp add: round_half_even_def Let_def)
qed

lemma round_half_even_error: "\<bar>of_int (round_half_even y) - y\<bar> \<le> 1 / 2"
proof -
  define f where "f = \<lfloor>y\<rfloor>"
  have "rat_of_int f \<le> y" "y < rat_of_int f + 1" unfolding f_def by linarith+
  then show ?thesis
    unfolding round_half_even_def Let_def f_def [symmetric]
    by (auto simp: abs_if)
qed

lemma fl_0 [simp]: "fl 0 = 0"
  by (simp add: fl_def)

lemma fl_normal_def:
  assumes "x \<noteq> 0" and "2 powi e \<le> \<bar>x\<bar>" and "\<bar>x\<bar> < 2 powi (e + 1)" and "- 1022 \<le> e"
  shows "fl x = of_int (round_half_even (x / 2 powi (e - 52))) * 2 powi (e - 52)"
proof -
  from assms(1) have "0 < \<bar>x\<bar>" by simp
  from ilog2_unique [OF this assms(2,3)] assms(1,4) show ?thesis
    by (simp add: fl_def Let_def max_def)
qed

lemma fl_nearI:
  assumes "x \<noteq> 0" and "2 powi e \<le> \<bar>x\<bar>" and "\<bar>x\<bar> < 2 powi (e + 1)" and "- 1022 \<le> e"
    and "\<bar>x / 2 powi (e - 52) - of_int m\<bar> < 1 / 2"
  shows "fl x = of_int m * 2 powi (e - 52)"
  using fl_normal_def [OF assms(1-4)] round_half_even_near [OF assms(5)] by simp

lemma fl_tieI:
  assumes "x \<noteq> 0" and "2 powi e \<le> \<bar>x\<bar>" and "\<bar>x\<bar> < 2 powi (e + 1)" and "- 1022 \<le> e"
    and "x / 2 powi (e - 52) = of_int m + 1 / 2"
  shows "fl x = of_int (if even m then m else m + 1) * 2 powi (e - 52)"
  using fl_normal_def [OF assms(1-4)] round_half_even_tie [of m] assms(5) by simp

lemma fl_error:
  assumes "x \<noteq> 0"
  shows "\<bar>fl x - x\<bar> \<le> 2 powi (max (ilog2 \<bar>x\<bar>) (- 1022) - 53)"
proof -
  define e where "e = max (ilog2 \<bar>x\<bar>) (- 1022)"
  define u :: rat where "u = 2 powi (e - 52)"
  have u: "0 < u" by (simp add: u_def)
  have "fl x = of_int (round_half_even (x / u)) * u"
    using assms by (simp add: fl_def Let_def e_def u_def)
  then have "fl x - x = (of_int (round_half_even (x / u)) - x / u) * u"
    using u by (simp add: field_simps)
  then have "\<bar>fl x - x\<bar> = \<bar>of_int (round_half_even (x / u)) - x / u\<bar> * u"
    using u by (simp add: abs_mult)
  also have "\<dots> \<le> 1 / 2 * u"
    using round_half_even_error [of "x / u"] u by (intro mult_right_mono) simp_all
  also have "\<dots> = 2 powi (e - 53)"
  proof -
    have "e - 52 = (e - 53) + 1" by simp
    then have "u = 2 powi ((e - 53) + 1)"
      unfolding u_def by simp
    also have "\<dots> = 2 powi (e - 53) * 2"
      by (rule power_int_add_1) simp
    finally show ?thesis by simp
  qed
  finally show ?thesis by (simp add: e_def)
qed

lemma fl_relative_error:
  assumes "2 powi (- 1022) \<le> \<bar>x\<bar>"
  shows "\<bar>fl x - x\<bar> \<le> \<bar>x\<bar> / 2 ^ 53"
proof -
  have pos: "0 < \<bar>x\<bar>"
  proof -
    have "(0::rat) < 2 powi (- 1022)" by simp
    with assms show ?thesis by linarith
  qed
  then have x0: "x \<noteq> 0" by simp
  from ilog2_bounds [OF pos] have b: "2 powi (ilog2 \<bar>x\<bar>) \<le> \<bar>x\<bar>" by simp
  have "- 1022 \<le> ilog2 \<bar>x\<bar>"
  proof (rule ccontr)
    assume "\<not> - 1022 \<le> ilog2 \<bar>x\<bar>"
    then have "ilog2 \<bar>x\<bar> + 1 \<le> - 1022" by simp
    then have "(2::rat) powi (ilog2 \<bar>x\<bar> + 1) \<le> 2 powi (- 1022)"
      by (intro power_int_increasing) simp_all
    with ilog2_bounds [OF pos] assms show False by linarith
  qed
  then have m: "max (ilog2 \<bar>x\<bar>) (- 1022) = ilog2 \<bar>x\<bar>" by simp
  have "(2::rat) powi (ilog2 \<bar>x\<bar> - 53) = 2 powi (ilog2 \<bar>x\<bar>) / 2 ^ 53"
    by (simp add: power_int_diff)
  also have "\<dots> \<le> \<bar>x\<bar> / 2 ^ 53"
    using b by (simp add: divide_right_mono)
  finally show ?thesis
    using fl_error [OF x0] m by simp
qed

lemma fl_of_int:
  assumes "\<bar>n\<bar> \<le> 2 ^ 53"
  shows "fl (of_int n) = of_int n"
proof (cases "n = 0")
  case True
  then show ?thesis by simp
next
  case False
  define x where "x = rat_of_int n"
  define e where "e = ilog2 \<bar>x\<bar>"
  from False have x0: "x \<noteq> 0" and x1: "1 \<le> \<bar>x\<bar>"
    by (simp_all add: x_def flip: of_int_abs)
  then have pos: "0 < \<bar>x\<bar>" by simp
  from ilog2_bounds [OF pos] have b: "2 powi e \<le> \<bar>x\<bar>" "\<bar>x\<bar> < 2 powi (e + 1)"
    by (simp_all add: e_def)
  have xle: "\<bar>x\<bar> \<le> 2 ^ 53"
  proof -
    have "rat_of_int \<bar>n\<bar> \<le> rat_of_int (2 ^ 53)"
      using assms by (simp only: of_int_le_iff)
    then show ?thesis by (simp add: x_def)
  qed
  have e0: "0 \<le> e"
  proof (rule ccontr)
    assume "\<not> 0 \<le> e"
    then have "e + 1 \<le> 0" by simp
    then have "(2::rat) powi (e + 1) \<le> 2 powi 0"
      by (intro power_int_increasing) simp_all
    with b(2) x1 show False by simp
  qed
  have e53: "e \<le> 53"
  proof (rule ccontr)
    assume "\<not> e \<le> 53"
    then have "54 \<le> e" by simp
    then have "(2::rat) powi 54 \<le> 2 powi e"
      by (intro power_int_increasing) simp_all
    with b(1) xle show False by simp
  qed
  from e0 have e1022: "- 1022 \<le> e" by simp
  note fl = fl_normal_def [OF x0 b e1022]
  show ?thesis
  proof (cases "e \<le> 52")
    case True
    define k where "k = nat (52 - e)"
    have "e - 52 = - int k" using True by (simp add: k_def)
    then have u: "(2::rat) powi (e - 52) = 1 / 2 ^ k"
      by (simp only: power_int_minus_divide power_int_of_nat)
    have q: "x / (1 / 2 ^ k) = rat_of_int (n * 2 ^ k)"
      by (simp add: x_def)
    have "fl x = rat_of_int (round_half_even (x / (1 / 2 ^ k))) * (1 / 2 ^ k)"
      using fl by (simp only: u)
    also have "\<dots> = rat_of_int (n * 2 ^ k) * (1 / 2 ^ k)"
      by (simp only: q round_half_even_of_int)
    also have "\<dots> = x"
      by (simp add: x_def)
    finally show ?thesis by (simp add: x_def)
  next
    case False
    with e53 have e: "e = 53" by simp
    from b(1) xle have ax: "\<bar>x\<bar> = 2 ^ 53" by (simp add: e)
    have u: "(2::rat) powi (e - 52) = 2" by (simp add: e)
    from ax have "x = 2 ^ 53 \<or> x = - (2 ^ 53)" by (auto simp: abs_if split: if_splits)
    then have "x / 2 = rat_of_int 4503599627370496 \<or> x / 2 = rat_of_int (- 4503599627370496)"
      by auto
    then have "rat_of_int (round_half_even (x / 2)) = x / 2"
      by (auto simp only: round_half_even_of_int)
    with fl u have "fl x = x" by simp
    then show ?thesis by (simp add: x_def)
  qed
qed

lemma fl_numeral [simp]:
  "numeral k \<le> (9007199254740992::int) \<Longrightarrow> fl (numeral k) = numeral k"
  using fl_of_int [of "numeral k"] by simp

lemma fl_1 [simp]: "fl 1 = 1"
  using fl_of_int [of 1] by simp

lemma one_tenth: "fl (1 / 10) = 3602879701896397 / 36028797018963968"
proof -
  have "fl (1 / 10) = rat_of_int 7205759403792794 * 2 powi (- 4 - 52)"
    by (rule fl_nearI) (simp_all add: power_int_minus_divide)
  then show ?thesis by (simp add: power_int_minus_divide)
qed









lemma confirmed_map_TypeError:
  assumes "length (operations b) < 4"
  shows "confirmed_map h b = Inl TypeError"
proof -
  have "scan_passes h b [3, 2, 1, 0] None = Inl TypeError"
    using assms by simp
  then show ?thesis unfolding confirmed_map_def by (simp only: sum.case)
qed









lemma example_block_ops [simp]:
  "4 \<le> length (operations (example_block lv))"
  "in_block h (example_block lv) = (lv = 7 \<and> h = ''ooTracked'')"
  "header_level (example_block lv) = lv"
  by (auto simp: example_block_def in_block_def)






lemma fl_big_near:
  assumes "2 ^ 55 \<le> x" and "x < 2 ^ 56" and "\<bar>x / 8 - of_int m\<bar> < 1 / 2"
  shows "fl x = of_int m * 8"
proof -
  have "fl x = of_int m * 2 powi (55 - 52)"
    by (rule fl_nearI) (use assms in simp_all)
  then show ?thesis by simp
qed

lemma fl_big_tie:
  assumes "2 ^ 55 \<le> x" and "x < 2 ^ 56" and "x / 8 = of_int m + 1 / 2"
  shows "fl x = of_int (if even m then m else m + 1) * 8"
proof -
  have "fl x = of_int (if even m then m else m + 1) * 2 powi (55 - 52)"
    by (rule fl_tieI) (use assms in simp_all)
  then show ?thesis by simp
qed

lemma ce1: "fl (90071992547409925 / 9007199254740992) = 10"
proof -
  have "fl (90071992547409925 / 9007199254740992)
          = rat_of_int 5629499534213120 * 2 powi (3 - 52)"
    by (rule fl_nearI) (simp_all add: power_int_minus_divide)
  then show ?thesis by (simp add: power_int_minus_divide)
qed

lemma ce2: "fl 36028797018963976 = 36028797018963976"
  using fl_big_near [of 36028797018963976 4503599627370497] by simp

lemma ce3: "fl 36028797018963986 = 36028797018963984"
  using fl_big_near [of 36028797018963986 4503599627370498] by simp

lemma ce4: "fl 36028797018964084 = 36028797018964080"
  using fl_big_tie [of 36028797018964084 4503599627370510] by simp

lemma ce5: "fl 36028797018964184 = 36028797018964184"
  using fl_big_near [of 36028797018964184 4503599627370523] by simp

lemma ce6: "fl 36028797018964180 = 36028797018964176"
  using fl_big_tie [of 36028797018964180 4503599627370522] by simp

lemmas estimate_defs = new_Estimate_def gasLimit_def storageLimit_def burnFeeMutez_def
  operationFeeMutez_def minimalFeeMutez_def suggestedFeeMutez_def totalCost_def roundUp_def
  Math_ceil_def Math_max_def fadd_def fmul_def MINIMAL_FEE_MUTEZ_def
  MINIMAL_FEE_PER_BYTE_MUTEZ_def MINIMAL_FEE_PER_STORAGE_BYTE_MUTEZ_def
  MINIMAL_FEE_PER_GAS_MUTEZ_def GAS_BUFFER_def

lemma fl_abs_error:
  assumes "2 powi (- 1022) \<le> \<bar>x\<bar>" and "\<bar>x\<bar> \<le> B"
  shows "\<bar>fl x - x\<bar> \<le> B / 2 ^ 53"
proof -
  from fl_relative_error [OF assms(1)] have "\<bar>fl x - x\<bar> \<le> \<bar>x\<bar> / 2 ^ 53" .
  also from assms(2) have "\<dots> \<le> B / 2 ^ 53" by (simp add: divide_right_mono)
  finally show ?thesis .
qed

lemma tiny_le: "(2::rat) powi (- 1022) \<le> 1 / 100"
proof -
  have "(2::rat) powi (- 1022) \<le> 2 powi (- 7)"
    by (intro power_int_increasing) simp_all
  also have "\<dots> \<le> 1 / 100" by (simp add: power_int_minus_divide)
  finally show ?thesis .
qed

text \<open>A number slightly above an integer below \<open>2 ^ 52\<close> rounds to that integer.\<close>

lemma fl_above_int:
  assumes "1 \<le> k" and "k < 2 ^ 52"
    and "y = rat_of_int k + rat_of_int k / 2 ^ 54"
  shows "fl y = rat_of_int k"
proof -
  define x where "x = rat_of_int k"
  define e where "e = ilog2 x"
  from assms(1) have x1: "1 \<le> x" by (simp add: x_def)
  then have pos: "0 < x" by simp
  from ilog2_bounds [OF pos] have b: "2 powi e \<le> x" "x < 2 powi (e + 1)"
    by (simp_all add: e_def)
  have e0: "0 \<le> e"
  proof (rule ccontr)
    assume "\<not> 0 \<le> e"
    then have "e + 1 \<le> 0" by simp
    then have "(2::rat) powi (e + 1) \<le> 2 powi 0"
      by (intro power_int_increasing) simp_all
    with b(2) x1 show False by simp
  qed
  have xlt: "x < 2 ^ 52"
  proof -
    have "rat_of_int k < rat_of_int (2 ^ 52)"
      using assms(2) by (simp only: of_int_less_iff)
    then show ?thesis by (simp add: x_def)
  qed
  have e51: "e \<le> 51"
  proof (rule ccontr)
    assume "\<not> e \<le> 51"
    then have "52 \<le> e" by simp
    then have "(2::rat) powi 52 \<le> 2 powi e"
      by (intro power_int_increasing) simp_all
    with b(1) xlt show False by simp
  qed
  define j where "j = nat e"
  define d where "d = nat (52 - e)"
  have ej: "e = int j" using e0 by (simp add: j_def)
  have jd: "j + d = 52" using e0 e51 by (simp add: j_def d_def)
  have pj: "(2::rat) powi e = 2 ^ j" by (simp add: ej)
  have pj1: "(2::rat) powi (e + 1) = 2 ^ Suc j"
    by (simp add: ej power_int_add)
  have "e - 52 = - int d" using e51 by (simp add: d_def)
  then have u: "(2::rat) powi (e - 52) = 1 / 2 ^ d"
    by (simp only: power_int_minus_divide power_int_of_nat)
  \<comment> \<open>\<open>k + 1 \<le> 2 ^ (j + 1)\<close>, as both are integers\<close>
  have "x < 2 ^ Suc j" using b(2) by (simp only: pj1)
  then have "rat_of_int k < rat_of_int (2 ^ Suc j)"
    by (simp add: x_def)
  then have "k < 2 ^ Suc j" by (simp only: of_int_less_iff)
  then have "k + 1 \<le> 2 ^ Suc j" by simp
  then have "rat_of_int (k + 1) \<le> rat_of_int (2 ^ Suc j)" by (simp only: of_int_le_iff)
  then have k1: "x + 1 \<le> 2 ^ Suc j" by (simp add: x_def)
  have y: "y = x + x / 2 ^ 54" by (simp add: assms(3) x_def)
  have small: "x / 2 ^ 54 < 1"
    using xlt by (simp add: field_simps)
  have y0: "y \<noteq> 0" and ypos: "0 < y" using pos y by (simp_all add: add_pos_pos)
  have lo: "2 powi e \<le> \<bar>y\<bar>"
    using b(1) pos y by simp
  have "\<bar>y\<bar> < 2 ^ Suc j"
    using k1 small pos y by simp
  then have hi: "\<bar>y\<bar> < 2 powi (e + 1)"
    by (simp only: pj1)
  have p52: "(2::rat) ^ 54 = 2 ^ d * 2 ^ Suc (Suc j)"
    using jd by (simp flip: power_add) (simp add: add.commute)
  have "y / (1 / 2 ^ d) - rat_of_int (k * 2 ^ d) = x / 2 ^ 54 * 2 ^ d"
    by (simp add: y x_def field_simps)
  also have "\<dots> = x / (2 ^ d * 2 ^ Suc (Suc j)) * 2 ^ d"
    by (simp only: p52)
  also have "\<dots> = x / 2 ^ Suc (Suc j)"
    by simp
  finally have diff: "y / (1 / 2 ^ d) - rat_of_int (k * 2 ^ d) = x / 2 ^ Suc (Suc j)" .
  have xj: "x < 2 ^ Suc j" using b(2) by (simp only: pj1)
  have "x / 2 ^ Suc (Suc j) < 1 / 2"
    using xj by (simp add: field_simps)
  moreover have "0 \<le> x / 2 ^ Suc (Suc j)" using pos by simp
  ultimately have "\<bar>x / 2 ^ Suc (Suc j)\<bar> < 1 / 2"
    by (simp only: abs_of_nonneg)
  then have "\<bar>y / (1 / 2 ^ d) - rat_of_int (k * 2 ^ d)\<bar> < 1 / 2"
    by (simp only: diff)
  then have near: "\<bar>y / 2 powi (e - 52) - rat_of_int (k * 2 ^ d)\<bar> < 1 / 2"
    by (simp only: u)
  have "fl y = rat_of_int (k * 2 ^ d) * 2 powi (e - 52)"
    by (rule fl_nearI [OF y0 lo hi _ near]) (use e0 in simp)
  then show ?thesis by (simp add: u)
qed

lemma gas_fee_multiple:
  assumes "0 \<le> k" and "k < 2 ^ 52"
  shows "fl (rat_of_int (10 * k) * (3602879701896397 / 36028797018963968)) = rat_of_int k"
proof (cases "k = 0")
  case True
  then show ?thesis by simp
next
  case False
  with assms(1) have k1: "1 \<le> k" by simp
  have "rat_of_int (10 * k) * (3602879701896397 / 36028797018963968)
          = rat_of_int k + rat_of_int k / 2 ^ 54"
    by simp
  from fl_above_int [OF k1 assms(2) this] show ?thesis .
qed

lemma gas_fee_close:
  assumes "1 \<le> n" and "n \<le> 2 ^ 41"
  shows "\<bar>fl (rat_of_int n * (3602879701896397 / 36028797018963968)) - rat_of_int n / 10\<bar>
           \<le> 1 / 2 ^ 14"
proof -
  define x where "x = rat_of_int n"
  define a where "a = x * (3602879701896397 / 36028797018963968)"
  have x1: "1 \<le> x" using assms(1) by (simp add: x_def)
  have "rat_of_int n \<le> rat_of_int (2 ^ 41)" using assms(2) by (simp only: of_int_le_iff)
  then have x41: "x \<le> 2 ^ 41" by (simp add: x_def)
  have a_eq: "a = x / 10 + x / 10 / 2 ^ 54" by (simp add: a_def)
  have a_lo: "1 / 10 \<le> a" using x1 by (simp add: a_def)
  have a_hi: "a \<le> 2 ^ 38" using x41 by (simp add: a_def)
  have a_abs: "\<bar>a\<bar> = a" using a_lo by simp
  have "2 powi (- 1022) \<le> \<bar>a\<bar>"
    using tiny_le a_lo unfolding a_abs by linarith
  from fl_abs_error [OF this, of "2 ^ 38"] a_hi a_abs
  have e1: "\<bar>fl a - a\<bar> \<le> 1 / 2 ^ 15" by simp
  have "a - x / 10 = x / 10 / 2 ^ 54" by (simp add: a_eq)
  moreover have "0 \<le> x / 10 / 2 ^ 54" "x / 10 / 2 ^ 54 \<le> 1 / 2 ^ 15"
    using x1 x41 by simp_all
  ultimately have e2: "\<bar>a - x / 10\<bar> \<le> 1 / 2 ^ 15" by simp
  have "\<bar>fl a - x / 10\<bar> \<le> \<bar>fl a - a\<bar> + \<bar>a - x / 10\<bar>" by simp
  with e1 e2 have "\<bar>fl a - x / 10\<bar> \<le> 1 / 2 ^ 15 + 1 / 2 ^ 15" by linarith
  then show ?thesis by (simp add: a_def x_def)
qed

lemma abs_diff_leD:
  fixes a b e :: rat
  assumes "\<bar>a - b\<bar> \<le> e"
  shows "b - e \<le> a" and "a \<le> b + e"
  using assms by linarith+

lemma ceiling_near_tenths:
  assumes "v = rat_of_int K + rat_of_int r / 10" and "1 \<le> r" and "r \<le> 9"
    and "\<bar>w - v\<bar> \<le> 1 / 2 ^ 10"
  shows "\<lceil>w\<rceil> = K + 1" and "\<lceil>v\<rceil> = K + 1"
proof -
  have "rat_of_int 1 \<le> rat_of_int r" "rat_of_int r \<le> rat_of_int 9"
    using assms(2,3) by (simp_all only: of_int_le_iff)
  then have r: "1 / 10 \<le> rat_of_int r / 10" "rat_of_int r / 10 \<le> 9 / 10"
    by simp_all
  from abs_diff_leD [OF assms(4)] have "v - 1 / 2 ^ 10 \<le> w" "w \<le> v + 1 / 2 ^ 10"
    by blast+
  with r assms(1) have "rat_of_int (K + 1) - 1 < w" "w \<le> rat_of_int (K + 1)"
    by simp_all
  then show "\<lceil>w\<rceil> = K + 1" by (rule ceiling_unique)
  from r assms(1) have "rat_of_int (K + 1) - 1 < v" "v \<le> rat_of_int (K + 1)"
    by simp_all
  then show "\<lceil>v\<rceil> = K + 1" by (rule ceiling_unique)
qed

lemma fee_ceiling:
  assumes "0 \<le> n" and "n \<le> 2 ^ 40 + 100" and "0 \<le> b" and "b \<le> 2 ^ 40"
    and "0 \<le> C" and "C \<le> 1000"
  shows "\<lceil>fl (fl (fl (rat_of_int n * (3602879701896397 / 36028797018963968)) + rat_of_int b)
              + rat_of_int C)\<rceil>
           = \<lceil>rat_of_int n / 10 + rat_of_int b + rat_of_int C\<rceil>"
proof (cases "n mod 10 = 0")
  case True
  define k where "k = n div 10"
  from True have n: "n = 10 * k" by (simp add: k_def) presburger
  from assms(1,2) n have k: "0 \<le> k" "k < 2 ^ 52" "k \<le> 2 ^ 40" by simp_all
  have p: "fl (rat_of_int n * (3602879701896397 / 36028797018963968)) = rat_of_int k"
    unfolding n by (rule gas_fee_multiple [OF k(1,2)])
  have "fl (rat_of_int k + rat_of_int b) = fl (rat_of_int (k + b))" by simp
  also have "\<dots> = rat_of_int (k + b)"
    by (rule fl_of_int) (use k assms(3,4) in simp)
  finally have x: "fl (rat_of_int k + rat_of_int b) = rat_of_int (k + b)" .
  have "fl (rat_of_int (k + b) + rat_of_int C) = fl (rat_of_int (k + b + C))" by simp
  also have "\<dots> = rat_of_int (k + b + C)"
    by (rule fl_of_int) (use k assms(3,4,5,6) in simp)
  finally have w: "fl (rat_of_int (k + b) + rat_of_int C) = rat_of_int (k + b + C)" .
  have "rat_of_int n / 10 + rat_of_int b + rat_of_int C = rat_of_int (k + b + C)"
    by (simp add: n)
  then show ?thesis
    by (simp only: p x w ceiling_of_int)
next
  case False
  define r where "r = n mod 10"
  define K where "K = n div 10 + b + C"
  define v where "v = rat_of_int n / 10 + rat_of_int b + rat_of_int C"
  define p where "p = fl (rat_of_int n * (3602879701896397 / 36028797018963968))"
  define x where "x = fl (p + rat_of_int b)"
  from False assms(1) have r: "1 \<le> r" "r \<le> 9" and n1: "1 \<le> n"
    by (simp_all add: r_def) presburger+
  have "n = 10 * (n div 10) + r" by (simp add: r_def)
  then have "rat_of_int n = rat_of_int (10 * (n div 10) + r)" by simp
  then have "rat_of_int n / 10 = rat_of_int (n div 10) + rat_of_int r / 10"
    by simp
  then have v: "v = rat_of_int K + rat_of_int r / 10"
    by (simp add: v_def K_def)
  have "rat_of_int 1 \<le> rat_of_int n" "rat_of_int n \<le> rat_of_int (2 ^ 40 + 100)"
    "rat_of_int 0 \<le> rat_of_int b" "rat_of_int b \<le> rat_of_int (2 ^ 40)"
    "rat_of_int 0 \<le> rat_of_int C" "rat_of_int C \<le> rat_of_int 1000"
    using n1 assms by (simp_all only: of_int_le_iff)
  then have bnd: "1 \<le> rat_of_int n" "rat_of_int n \<le> 2 ^ 40 + 100"
    "0 \<le> rat_of_int b" "rat_of_int b \<le> 2 ^ 40" "0 \<le> rat_of_int C" "rat_of_int C \<le> 1000"
    by simp_all
  have "n \<le> 2 ^ 41" using assms(2) by simp
  from gas_fee_close [OF n1 this]
  have pe: "\<bar>p - rat_of_int n / 10\<bar> \<le> 1 / 2 ^ 14" by (simp add: p_def)
  from abs_diff_leD [OF pe]
  have pb: "rat_of_int n / 10 - 1 / 2 ^ 14 \<le> p" "p \<le> rat_of_int n / 10 + 1 / 2 ^ 14"
    by blast+
  \<comment> \<open>the operation fee\<close>
  have z_lo: "1 / 100 \<le> p + rat_of_int b" and z_hi: "p + rat_of_int b \<le> 2 ^ 41"
    using pb bnd by simp_all
  have z_abs: "\<bar>p + rat_of_int b\<bar> = p + rat_of_int b" using z_lo by simp
  have "2 powi (- 1022) \<le> \<bar>p + rat_of_int b\<bar>"
    unfolding z_abs using tiny_le z_lo by linarith
  from fl_abs_error [OF this, of "2 ^ 41"] z_hi z_abs
  have xe: "\<bar>x - (p + rat_of_int b)\<bar> \<le> 1 / 2 ^ 12" by (simp add: x_def)
  from abs_diff_leD [OF xe]
  have xb: "p + rat_of_int b - 1 / 2 ^ 12 \<le> x" "x \<le> p + rat_of_int b + 1 / 2 ^ 12"
    by blast+
  \<comment> \<open>the fee with the base fee added\<close>
  have w_lo: "1 / 100 \<le> x + rat_of_int C" and w_hi: "x + rat_of_int C \<le> 2 ^ 42"
    using xb pb bnd by simp_all
  have w_abs: "\<bar>x + rat_of_int C\<bar> = x + rat_of_int C" using w_lo by simp
  have "2 powi (- 1022) \<le> \<bar>x + rat_of_int C\<bar>"
    unfolding w_abs using tiny_le w_lo by linarith
  from fl_abs_error [OF this, of "2 ^ 42"] w_hi w_abs
  have we: "\<bar>fl (x + rat_of_int C) - (x + rat_of_int C)\<bar> \<le> 1 / 2 ^ 11" by simp
  from abs_diff_leD [OF we]
  have wb: "x + rat_of_int C - 1 / 2 ^ 11 \<le> fl (x + rat_of_int C)"
    "fl (x + rat_of_int C) \<le> x + rat_of_int C + 1 / 2 ^ 11"
    by blast+
  have "\<bar>fl (x + rat_of_int C) - v\<bar> \<le> 1 / 2 ^ 10"
    unfolding v_def abs_le_iff using wb xb pb by simp
  from ceiling_near_tenths [OF v r this]
  have "\<lceil>fl (x + rat_of_int C)\<rceil> = \<lceil>v\<rceil>" by simp
  then show ?thesis by (simp add: x_def p_def v_def)
qed

lemma fl_of_int_small:
  "\<bar>n\<bar> \<le> 2 ^ 52 \<Longrightarrow> fl (rat_of_int n) = rat_of_int n"
  by (rule fl_of_int) simp

lemma operation_fee_integer_inputs:
  assumes "- 100 \<le> g" and "g \<le> 2 ^ 40" and "0 \<le> b" and "b \<le> 2 ^ 40"
  shows "operationFeeMutez (new_Estimate (rat_of_int g) s (rat_of_int b) base)
           = fl (fl (rat_of_int (g + 100) * (3602879701896397 / 36028797018963968))
                 + rat_of_int b)"
proof -
  have "fl (rat_of_int g + 100) = fl (rat_of_int (g + 100))" by simp
  also have "\<dots> = rat_of_int (g + 100)"
    by (rule fl_of_int_small) (use assms in simp)
  finally have g: "fl (rat_of_int g + 100) = rat_of_int (g + 100)" .
  have b: "fl (rat_of_int b) = rat_of_int b"
    by (rule fl_of_int_small) (use assms in simp)
  show ?thesis
    by (simp add: estimate_defs one_tenth g b del: of_int_add)
qed

lemma Estimate_fees_integer_inputs:
  assumes "- 100 \<le> g" and "g \<le> 2 ^ 40" and "0 \<le> b" and "b \<le> 2 ^ 40"
  shows "minimalFeeMutez (new_Estimate (rat_of_int g) s (rat_of_int b) base)
           = rat_of_int \<lceil>100 + (rat_of_int g + 100) / 10 + rat_of_int b\<rceil>"
    and "suggestedFeeMutez (new_Estimate (rat_of_int g) s (rat_of_int b) base)
           = rat_of_int \<lceil>(rat_of_int g + 100) / 10 + rat_of_int b + 200\<rceil>"
proof -
  let ?est = "new_Estimate (rat_of_int g) s (rat_of_int b) base"
  let ?x = "fl (fl (rat_of_int (g + 100) * (3602879701896397 / 36028797018963968))
                 + rat_of_int b)"
  note x = operation_fee_integer_inputs [OF assms, of s base]
  have n: "0 \<le> g + 100" "g + 100 \<le> 2 ^ 40 + 100" using assms by simp_all
  have c1: "\<lceil>fl (?x + rat_of_int 100)\<rceil>
              = \<lceil>rat_of_int (g + 100) / 10 + rat_of_int b + rat_of_int 100\<rceil>"
    by (rule fee_ceiling [OF n assms(3,4)]) simp_all
  have c2: "\<lceil>fl (?x + rat_of_int 200)\<rceil>
              = \<lceil>rat_of_int (g + 100) / 10 + rat_of_int b + rat_of_int 200\<rceil>"
    by (rule fee_ceiling [OF n assms(3,4)]) simp_all
  have "minimalFeeMutez ?est = rat_of_int \<lceil>fl (100 + ?x)\<rceil>"
    by (simp only: minimalFeeMutez_def roundUp_def Math_ceil_def fadd_def
          MINIMAL_FEE_MUTEZ_def x)
  also have "100 + ?x = ?x + rat_of_int 100" by simp
  finally show "minimalFeeMutez ?est
                  = rat_of_int \<lceil>100 + (rat_of_int g + 100) / 10 + rat_of_int b\<rceil>"
    by (simp only: c1) (simp add: add.commute add.left_commute)
  have "fl (100 * 2) = (200::rat)" by simp
  then have "suggestedFeeMutez ?est = rat_of_int \<lceil>fl (?x + 200)\<rceil>"
    by (simp only: suggestedFeeMutez_def roundUp_def Math_ceil_def fadd_def fmul_def
          MINIMAL_FEE_MUTEZ_def x)
  also have "?x + 200 = ?x + rat_of_int 200" by simp
  finally show "suggestedFeeMutez ?est
                  = rat_of_int \<lceil>(rat_of_int g + 100) / 10 + rat_of_int b + 200\<rceil>"
    by (simp only: c2) simp
qed

text \<open>
  C10, as stated, has the two fees differ by 100 for every input. With a byte size of
  \<open>2 ^ 55 + 8\<close> the two roundings part: the suggested fee is \<open>2 ^ 55 + 216\<close>, the
  minimal fee is \<open>2 ^ 55 + 112\<close>, and adding 100 to it gives \<open>2 ^ 55 + 212\<close>, which
  JavaScript rounds to \<open>2 ^ 55 + 208\<close>.
\<close>

theorem C10_large_size_counterexample:
  "minimalFeeMutez (new_Estimate 0 0 36028797018963976 None) = 36028797018964080
   \<and> suggestedFeeMutez (new_Estimate 0 0 36028797018963976 None) = 36028797018964184
   \<and> fadd (minimalFeeMutez (new_Estimate 0 0 36028797018963976 None)) 100 = 36028797018964176
   \<and> suggestedFeeMutez (new_Estimate 0 0 36028797018963976 None)
       \<noteq> minimalFeeMutez (new_Estimate 0 0 36028797018963976 None) + 100"
  by (simp add: estimate_defs one_tenth ce1 ce2 ce3 ce4 ce5 ce6)

text \<open>
  C10, amended. For every Estimate whose gas and byte size are integers, the gas between
  \<open>- 100\<close> and \<open>2 ^ 40\<close> and the size between 0 and \<open>2 ^ 40\<close>, whatever its storage
  and base fee, \<^verbatim>\<open>suggestedFeeMutez\<close> equals \<^verbatim>\<open>minimalFeeMutez\<close> plus 100 exactly.
\<close>

theorem C10_suggested_is_minimal_plus_100:
  assumes "- 100 \<le> g" and "g \<le> 2 ^ 40" and "0 \<le> b" and "b \<le> 2 ^ 40"
  shows "suggestedFeeMutez (new_Estimate (rat_of_int g) s (rat_of_int b) base)
           = minimalFeeMutez (new_Estimate (rat_of_int g) s (rat_of_int b) base) + 100"
proof -
  have "(rat_of_int g + 100) / 10 + rat_of_int b + 200
          = (100 + (rat_of_int g + 100) / 10 + rat_of_int b) + rat_of_int 100"
    by simp
  then have "\<lceil>(rat_of_int g + 100) / 10 + rat_of_int b + 200\<rceil>
          = \<lceil>100 + (rat_of_int g + 100) / 10 + rat_of_int b\<rceil> + 100"
    by (simp only: ceiling_add_of_int)
  then show ?thesis
    by (simp add: Estimate_fees_integer_inputs [OF assms])
qed

theorem C10_suggested_is_minimal_plus_100_witness:
  "- 100 \<le> (10207::int) \<and> (10207::int) \<le> 2 ^ 40 \<and> (0::int) \<le> 162 \<and> (162::int) \<le> 2 ^ 40
   \<and> minimalFeeMutez (new_Estimate 10207 257 162 None) = 1293
   \<and> suggestedFeeMutez (new_Estimate 10207 257 162 None) = 1393"
proof -
  have h: "- 100 \<le> (10207::int)" "(10207::int) \<le> 2 ^ 40" "(0::int) \<le> 162" "(162::int) \<le> 2 ^ 40"
    by simp_all
  have "\<lceil>12927 / 10 :: rat\<rceil> = 1293"
    by (rule ceiling_unique) simp_all
  with Estimate_fees_integer_inputs(1) [OF h, of 257 None]
  have m: "minimalFeeMutez (new_Estimate 10207 257 162 None) = 1293"
    by simp
  from C10_suggested_is_minimal_plus_100 [OF h, of 257 None] m
  have "suggestedFeeMutez (new_Estimate 10207 257 162 None) = 1393"
    by simp
  with h m show ?thesis by simp
qed



end
